theory Spec2Isabelle
  imports Main "HOL-Library.Word"
begin

unbundle bit_operations_syntax

section \<open>Win32Window: the message normalisation layer of the Windows shell\<close>

text \<open>
  A shallow embedding of \<^verbatim>\<open>shell/platform/windows/win32_window.cc\<close>.
  The C++ class \<^verbatim>\<open>Win32Window\<close> becomes a record, the objects live in an explicit
  store indexed by their address, the per-handle \<^verbatim>\<open>GWLP_USERDATA\<close> slot is a map
  from handles to addresses, and the function-local \<^verbatim>\<open>static char32_t lead_surrogate\<close>
  of \<^verbatim>\<open>MessageHandler\<close> is one cell of the process state. Every virtual callback
  (\<^verbatim>\<open>OnChar\<close>, \<^verbatim>\<open>OnKey\<close>, ...) and every native call that acts on the
  windowing system is recorded, in program order, in the list of effects a function returns.
\<close>

subsection \<open>Machine types and Windows constants\<close>

type_synonym UINT = "32 word"
type_synonym WPARAM = "64 word"      \<comment> \<open>\<^verbatim>\<open>UINT_PTR\<close> on a 64-bit target\<close>
type_synonym LPARAM = "64 word"      \<comment> \<open>\<^verbatim>\<open>LONG_PTR\<close> on a 64-bit target, read as signed where it matters\<close>
type_synonym char32_t = "32 word"
type_synonym HWND = nat              \<comment> \<open>a window handle; \<open>0\<close> is \<^verbatim>\<open>nullptr\<close>\<close>
type_synonym ptr = nat               \<comment> \<open>the address of a \<^verbatim>\<open>Win32Window\<close>; \<open>0\<close> is \<^verbatim>\<open>nullptr\<close>\<close>
type_synonym wstring = "nat list"    \<comment> \<open>\<^verbatim>\<open>std::wstring\<close>: a list of code units\<close>

text \<open>Message identifiers and key codes, with the values of the Windows SDK headers.\<close>

definition WM_SIZE :: UINT where [simp]: "WM_SIZE = 0x0005"
definition WM_FONTCHANGE :: UINT where [simp]: "WM_FONTCHANGE = 0x001D"
definition WM_NCCREATE :: UINT where [simp]: "WM_NCCREATE = 0x0081"
definition WM_KEYDOWN :: UINT where [simp]: "WM_KEYDOWN = 0x0100"
definition WM_KEYUP :: UINT where [simp]: "WM_KEYUP = 0x0101"
definition WM_CHAR :: UINT where [simp]: "WM_CHAR = 0x0102"
definition WM_DEADCHAR :: UINT where [simp]: "WM_DEADCHAR = 0x0103"
definition WM_SYSKEYDOWN :: UINT where [simp]: "WM_SYSKEYDOWN = 0x0104"
definition WM_SYSKEYUP :: UINT where [simp]: "WM_SYSKEYUP = 0x0105"
definition WM_SYSCHAR :: UINT where [simp]: "WM_SYSCHAR = 0x0106"
definition WM_SYSDEADCHAR :: UINT where [simp]: "WM_SYSDEADCHAR = 0x0107"
definition WM_UNICHAR :: UINT where [simp]: "WM_UNICHAR = 0x0109"
definition WM_MOUSEMOVE :: UINT where [simp]: "WM_MOUSEMOVE = 0x0200"
definition WM_LBUTTONDOWN :: UINT where [simp]: "WM_LBUTTONDOWN = 0x0201"
definition WM_LBUTTONUP :: UINT where [simp]: "WM_LBUTTONUP = 0x0202"
definition WM_RBUTTONDOWN :: UINT where [simp]: "WM_RBUTTONDOWN = 0x0204"
definition WM_RBUTTONUP :: UINT where [simp]: "WM_RBUTTONUP = 0x0205"
definition WM_MBUTTONDOWN :: UINT where [simp]: "WM_MBUTTONDOWN = 0x0207"
definition WM_MBUTTONUP :: UINT where [simp]: "WM_MBUTTONUP = 0x0208"
definition WM_MOUSEWHEEL :: UINT where [simp]: "WM_MOUSEWHEEL = 0x020A"
definition WM_XBUTTONDOWN :: UINT where [simp]: "WM_XBUTTONDOWN = 0x020B"
definition WM_XBUTTONUP :: UINT where [simp]: "WM_XBUTTONUP = 0x020C"
definition WM_MOUSELEAVE :: UINT where [simp]: "WM_MOUSELEAVE = 0x02A3"
definition kWmDpiChangedBeforeParent :: UINT where [simp]: "kWmDpiChangedBeforeParent = 0x02E2"

definition UNICODE_NOCHAR :: WPARAM where [simp]: "UNICODE_NOCHAR = 0xFFFF"
definition VK_BACK :: UINT where [simp]: "VK_BACK = 0x08"
definition VK_SHIFT :: UINT where [simp]: "VK_SHIFT = 0x10"
definition VK_CONTROL :: UINT where [simp]: "VK_CONTROL = 0x11"
definition VK_MENU :: UINT where [simp]: "VK_MENU = 0x12"
definition MAPVK_VK_TO_CHAR :: UINT where [simp]: "MAPVK_VK_TO_CHAR = 2"
definition MAPVK_VSC_TO_VK_EX :: UINT where [simp]: "MAPVK_VSC_TO_VK_EX = 3"

text \<open>The SDK's parameter-unpacking macros.\<close>

definition LOWORD :: "64 word \<Rightarrow> 16 word" where
  "LOWORD l = ucast (l AND 0xffff)"

definition HIWORD :: "64 word \<Rightarrow> 16 word" where
  "HIWORD l = ucast (drop_bit 16 l AND 0xffff)"

definition GET_X_LPARAM :: "LPARAM \<Rightarrow> int" where
  "GET_X_LPARAM lp = sint (LOWORD lp)"

definition GET_Y_LPARAM :: "LPARAM \<Rightarrow> int" where
  "GET_Y_LPARAM lp = sint (HIWORD lp)"

definition GET_XBUTTON_WPARAM :: "WPARAM \<Rightarrow> UINT" where
  "GET_XBUTTON_WPARAM wp = ucast (HIWORD wp)"

subsection \<open>The object, the process state and the effects\<close>

text \<open>
  Modelled from the spec: the member declarations of \<^verbatim>\<open>win32_window.h\<close>, which is not
  part of the sources at hand. The spec's data model lists, per Logical Window, the native
  handle, the current width, height and DPI, the mouse-leave-armed flag, the pending key-down
  code (zero means none) and the registered window-class name. The integer members are
  taken as 32-bit, the width of \<^verbatim>\<open>UINT\<close> and \<^verbatim>\<open>int\<close> on the target.
\<close>

record Win32Window =
  current_dpi :: UINT
  current_width :: UINT
  current_height :: UINT
  window_handle :: HWND
  window_class_name :: wstring
  tracking_mouse_leave :: bool
  keycode_for_char_message :: UINT

text \<open>
  The process state: the objects by address, the \<^verbatim>\<open>GWLP_USERDATA\<close> slot of every
  handle (\<open>0\<close> when unset), the static \<^verbatim>\<open>lead_surrogate\<close> of \<^verbatim>\<open>MessageHandler\<close>,
  and the \<^verbatim>\<open>lpCreateParams\<close> field of the \<^verbatim>\<open>CREATESTRUCT\<close> found at an address.
\<close>

record machine =
  objects :: "ptr \<Rightarrow> Win32Window"
  userdata :: "HWND \<Rightarrow> ptr"
  lead_surrogate :: char32_t
  lpCreateParams :: "LPARAM \<Rightarrow> ptr"

text \<open>
  The services of the host that return a value the code branches on or stores. They are
  parameters of the model: nothing is assumed about what they return.
\<close>

record host =
  GetDpiForHWND :: "HWND \<Rightarrow> UINT"
  MapVirtualKey :: "UINT \<Rightarrow> UINT \<Rightarrow> UINT"
  mbstowcs :: "string \<Rightarrow> wstring"

text \<open>
  The virtual hooks of the class. Pointer coordinates are the integers that the code converts
  to \<^verbatim>\<open>double\<close>; \<open>OnScroll d\<close> stands for the call
  \<^verbatim>\<open>OnScroll(0.0, -(d / (double)WHEEL_DELTA))\<close> with \<open>d\<close> the signed wheel delta.
\<close>

datatype callback =
    OnDpiScale UINT
  | OnResize UINT UINT
  | OnFontChange
  | OnPointerMove int int
  | OnPointerLeave
  | OnPointerDown int int UINT
  | OnPointerUp int int UINT
  | OnScroll int
  | OnChar char32_t
  | OnKey UINT UINT UINT char32_t

datatype native =
    TrackMouseEvent HWND
  | SetCapture HWND
  | ReleaseCapture
  | SetWindowLongPtr HWND ptr
  | DestroyWindow HWND
  | UnregisterClass wstring
  | RegisterClass wstring
  | CreateWindowEx wstring wstring UINT UINT ptr
  | OutputDebugString

datatype effect = Callback ptr callback | Native native

text \<open>
  What a window procedure returns: a value of its own, the result of the host's default
  procedure for the given call, or no return at all when the code dereferences a null
  object pointer.
\<close>

datatype LRESULT =
    Value "64 word"
  | DefWindowProc HWND UINT WPARAM LPARAM
  | NullDereference

definition update_object :: "ptr \<Rightarrow> (Win32Window \<Rightarrow> Win32Window) \<Rightarrow> machine \<Rightarrow> machine" where
  "update_object p f m = m\<lparr>objects := (objects m)(p := f (objects m p))\<rparr>"

text \<open>The events of an effect list: the callbacks, without their receiver.\<close>

fun events :: "effect list \<Rightarrow> callback list" where
  "events [] = []"
| "events (Callback p c # es) = c # events es"
| "events (Native n # es) = events es"

fun is_OnChar :: "callback \<Rightarrow> bool" where
  "is_OnChar (OnChar c) = True"
| "is_OnChar _ = False"

fun is_OnKey :: "callback \<Rightarrow> bool" where
  "is_OnKey (OnKey k s a c) = True"
| "is_OnKey _ = False"

text \<open>
  \<^verbatim>\<open>std::wstring::c_str()\<close> as the host reads it: the units before the first zero.
\<close>

definition c_str :: "wstring \<Rightarrow> wstring" where
  "c_str s = takeWhile (\<lambda>c. c \<noteq> 0) s"

subsection \<open>Destroy\<close>

text \<open>
  \<^verbatim>\<open>
  void Win32Window::Destroy() {
    if (window_handle_) {
      DestroyWindow(window_handle_);
      window_handle_ = nullptr;
    }
    UnregisterClass(window_class_name_.c_str(), nullptr);
  }
  \<close>
  The host's \<^verbatim>\<open>DestroyWindow\<close> ends the life of the handle: its user-data slot reads
  \<open>0\<close> afterwards. The destructor of the class calls \<^verbatim>\<open>Destroy\<close> and nothing else.
\<close>

definition Destroy :: "ptr \<Rightarrow> machine \<Rightarrow> effect list \<times> machine" where
  "Destroy this m =
     (let w = objects m this in
      if window_handle w \<noteq> 0
      then ([Native (DestroyWindow (window_handle w)),
             Native (UnregisterClass (c_str (window_class_name w)))],
            update_object this (\<lambda>w. w\<lparr>window_handle := 0\<rparr>)
              (m\<lparr>userdata := (userdata m)(window_handle w := 0)\<rparr>))
      else ([Native (UnregisterClass (c_str (window_class_name w)))], m))"

subsection \<open>TrackMouseLeaveEvent\<close>

text \<open>
  \<^verbatim>\<open>
  void Win32Window::TrackMouseLeaveEvent(HWND hwnd) {
    if (!tracking_mouse_leave_) {
      TRACKMOUSEEVENT tme; ... tme.hwndTrack = hwnd; tme.dwFlags = TME_LEAVE;
      TrackMouseEvent(&tme);
      tracking_mouse_leave_ = true;
    }
  }
  \<close>
\<close>

definition TrackMouseLeaveEvent :: "ptr \<Rightarrow> HWND \<Rightarrow> machine \<Rightarrow> effect list \<times> machine" where
  "TrackMouseLeaveEvent this hwnd m =
     (if \<not> tracking_mouse_leave (objects m this)
      then ([Native (TrackMouseEvent hwnd)],
            update_object this (\<lambda>w. w\<lparr>tracking_mouse_leave := True\<rparr>) m)
      else ([], m))"

subsection \<open>HandleResize\<close>

text \<open>
  \<^verbatim>\<open>
  void Win32Window::HandleResize(UINT width, UINT height) {
    current_width_ = width;
    current_height_ = height;
    OnResize(width, height);
  }
  \<close>
\<close>

definition HandleResize :: "ptr \<Rightarrow> UINT \<Rightarrow> UINT \<Rightarrow> machine \<Rightarrow> effect list \<times> machine" where
  "HandleResize this width height m =
     ([Callback this (OnResize width height)],
      update_object this (\<lambda>w. w\<lparr>current_width := width, current_height := height\<rparr>) m)"

subsection \<open>MessageHandler\<close>

text \<open>
  The cases of the \<^verbatim>\<open>switch\<close>, one definition each, in the order of the source. Each takes
  the receiver \<open>this\<close> of \<^verbatim>\<open>MessageHandler\<close> and the object \<open>window\<close> that the handler
  reads from the user-data slot of \<open>hwnd\<close>: the hooks are called on \<open>window\<close>, the members
  the handler names directly are those of \<open>this\<close>.
\<close>

text \<open>\<^verbatim>\<open>const unsigned int scancode = (lparam >> 16) & 0xff;\<close> on the signed \<^verbatim>\<open>LPARAM\<close>.\<close>

definition scancode_of :: "LPARAM \<Rightarrow> UINT" where
  "scancode_of lparam = ucast (signed_drop_bit 16 lparam AND 0xff)"

text \<open>
  \<^verbatim>\<open>
  case WM_SIZE:
    width = LOWORD(lparam);
    height = HIWORD(lparam);
    current_width_ = width;
    current_height_ = height;
    window->HandleResize(width, height);
    break;
  \<close>
\<close>

definition case_WM_SIZE :: "ptr \<Rightarrow> ptr \<Rightarrow> LPARAM \<Rightarrow> machine \<Rightarrow> effect list \<times> machine" where
  "case_WM_SIZE this window lparam m =
     (let width = ucast (LOWORD lparam);
          height = ucast (HIWORD lparam);
          m1 = update_object this
                 (\<lambda>w. w\<lparr>current_width := width, current_height := height\<rparr>) m
      in HandleResize window width height m1)"

text \<open>
  \<^verbatim>\<open>
  case WM_MOUSEMOVE:
    window->TrackMouseLeaveEvent(hwnd);
    xPos = GET_X_LPARAM(lparam);
    yPos = GET_Y_LPARAM(lparam);
    window->OnPointerMove(static_cast<double>(xPos), static_cast<double>(yPos));
    break;
  \<close>
\<close>

definition case_WM_MOUSEMOVE :: "ptr \<Rightarrow> HWND \<Rightarrow> LPARAM \<Rightarrow> machine \<Rightarrow> effect list \<times> machine" where
  "case_WM_MOUSEMOVE window hwnd lparam m =
     (let (es, m1) = TrackMouseLeaveEvent window hwnd m
      in (es @ [Callback window (OnPointerMove (GET_X_LPARAM lparam) (GET_Y_LPARAM lparam))],
          m1))"

text \<open>
  \<^verbatim>\<open>
  case WM_MOUSELEAVE:;
    window->OnPointerLeave();
    // Once the tracked event is received, the TrackMouseEvent function
    // resets. Set to false to make sure it's called once mouse movement is
    // detected again.
    tracking_mouse_leave_ = false;
    break;
  \<close>
\<close>

definition case_WM_MOUSELEAVE :: "ptr \<Rightarrow> ptr \<Rightarrow> machine \<Rightarrow> effect list \<times> machine" where
  "case_WM_MOUSELEAVE this window m =
     ([Callback window OnPointerLeave],
      update_object this (\<lambda>w. w\<lparr>tracking_mouse_leave := False\<rparr>) m)"

text \<open>
  \<^verbatim>\<open>
  case WM_LBUTTONDOWN: case WM_RBUTTONDOWN: case WM_MBUTTONDOWN: case WM_XBUTTONDOWN:
    if (message == WM_LBUTTONDOWN) { SetCapture(hwnd); }
    button_pressed = message;
    if (message == WM_XBUTTONDOWN) { button_pressed = GET_XBUTTON_WPARAM(wparam); }
    xPos = GET_X_LPARAM(lparam);
    yPos = GET_Y_LPARAM(lparam);
    window->OnPointerDown(static_cast<double>(xPos), static_cast<double>(yPos), button_pressed);
    break;
  \<close>
\<close>

definition case_BUTTONDOWN ::
  "ptr \<Rightarrow> HWND \<Rightarrow> UINT \<Rightarrow> WPARAM \<Rightarrow> LPARAM \<Rightarrow> machine \<Rightarrow> effect list \<times> machine" where
  "case_BUTTONDOWN window hwnd message wparam lparam m =
     (let es = (if message = WM_LBUTTONDOWN then [Native (SetCapture hwnd)] else []);
          button_pressed =
            (if message = WM_XBUTTONDOWN then GET_XBUTTON_WPARAM wparam else message)
      in (es @ [Callback window
                  (OnPointerDown (GET_X_LPARAM lparam) (GET_Y_LPARAM lparam) button_pressed)],
          m))"

text \<open>
  \<^verbatim>\<open>
  case WM_LBUTTONUP: case WM_RBUTTONUP: case WM_MBUTTONUP: case WM_XBUTTONUP:
    if (message == WM_LBUTTONUP) { ReleaseCapture(); }
    button_pressed = message;
    if (message == WM_XBUTTONUP) { button_pressed = GET_XBUTTON_WPARAM(wparam); }
    xPos = GET_X_LPARAM(lparam);
    yPos = GET_Y_LPARAM(lparam);
    window->OnPointerUp(static_cast<double>(xPos), static_cast<double>(yPos), button_pressed);
    break;
  \<close>
\<close>

definition case_BUTTONUP ::
  "ptr \<Rightarrow> UINT \<Rightarrow> WPARAM \<Rightarrow> LPARAM \<Rightarrow> machine \<Rightarrow> effect list \<times> machine" where
  "case_BUTTONUP window message wparam lparam m =
     (let es = (if message = WM_LBUTTONUP then [Native ReleaseCapture] else []);
          button_pressed =
            (if message = WM_XBUTTONUP then GET_XBUTTON_WPARAM wparam else message)
      in (es @ [Callback window
                  (OnPointerUp (GET_X_LPARAM lparam) (GET_Y_LPARAM lparam) button_pressed)],
          m))"

text \<open>
  The surrogate step of the character case, on the decoded code point and the static
  \<^verbatim>\<open>lead_surrogate\<close>; it returns the code point and the static as the code leaves them.
  \<^verbatim>\<open>
  if ((code_point & 0xFFFFFC00) == 0xD800) {
    lead_surrogate = code_point;
  } else if (lead_surrogate != 0 && (code_point & 0xFFFFFC00) == 0xDC00) {
    // Merge TrailSurrogate and LeadSurrogate.
    code_point = 0x10000 + ((lead_surrogate & 0x000003FF) << 10) + (code_point & 0x3FF);
    lead_surrogate = 0;
  }
  \<close>
\<close>

definition merge_surrogates :: "char32_t \<Rightarrow> char32_t \<Rightarrow> char32_t \<times> char32_t" where
  "merge_surrogates code_point lead =
     (if code_point AND 0xFFFFFC00 = 0xD800 then (code_point, code_point)
      else if lead \<noteq> 0 \<and> code_point AND 0xFFFFFC00 = 0xDC00
      then (0x10000 + push_bit 10 (lead AND 0x000003FF) + (code_point AND 0x3FF), 0)
      else (code_point, lead))"

text \<open>
  \<^verbatim>\<open>
  case WM_DEADCHAR: case WM_SYSDEADCHAR: case WM_CHAR: case WM_SYSCHAR: {
    char32_t code_point = static_cast<char32_t>(wparam);
    static char32_t lead_surrogate = 0;
    ... the surrogate step ...
    if (wparam != VK_BACK && message != WM_DEADCHAR && message != WM_SYSDEADCHAR) {
      window->OnChar(code_point);
    }
    if (keycode_for_char_message_ != 0) {
      const unsigned int scancode = (lparam >> 16) & 0xff;
      window->OnKey(keycode_for_char_message_, scancode, WM_KEYDOWN, code_point);
      keycode_for_char_message_ = 0;
    }
    break;
  }
  \<close>
\<close>

definition case_WM_CHAR ::
  "ptr \<Rightarrow> ptr \<Rightarrow> UINT \<Rightarrow> WPARAM \<Rightarrow> LPARAM \<Rightarrow> machine \<Rightarrow> effect list \<times> machine" where
  "case_WM_CHAR this window message wparam lparam m =
     (let (code_point, lead) = merge_surrogates (ucast wparam) (lead_surrogate m);
          m1 = m\<lparr>lead_surrogate := lead\<rparr>;
          es = (if wparam \<noteq> ucast VK_BACK \<and> message \<noteq> WM_DEADCHAR \<and> message \<noteq> WM_SYSDEADCHAR
                then [Callback window (OnChar code_point)] else []);
          keycode = keycode_for_char_message (objects m1 this)
      in if keycode \<noteq> 0
         then (es @ [Callback window (OnKey keycode (scancode_of lparam) WM_KEYDOWN code_point)],
               update_object this (\<lambda>w. w\<lparr>keycode_for_char_message := 0\<rparr>) m1)
         else (es, m1))"

text \<open>
  \<^verbatim>\<open>
  case WM_KEYDOWN: case WM_SYSKEYDOWN: case WM_KEYUP: case WM_SYSKEYUP:
    const bool is_keydown_message = (message == WM_KEYDOWN || message == WM_SYSKEYDOWN);
    const unsigned int character = MapVirtualKey(wparam, MAPVK_VK_TO_CHAR);
    if (character > 0 && is_keydown_message) {
      keycode_for_char_message_ = wparam;
      break;
    }
    unsigned int keyCode(wparam);
    const unsigned int scancode = (lparam >> 16) & 0xff;
    if (keyCode == VK_SHIFT || keyCode == VK_MENU || keyCode == VK_CONTROL) {
      keyCode = MapVirtualKey(scancode, MAPVK_VSC_TO_VK_EX);
    }
    const int action = is_keydown_message ? WM_KEYDOWN : WM_KEYUP;
    window->OnKey(keyCode, scancode, action, 0);
    break;
  \<close>
  \<^verbatim>\<open>MapVirtualKey\<close> takes a \<^verbatim>\<open>UINT\<close> and the member is an \<^verbatim>\<open>int\<close>: both
  conversions keep the low 32 bits of \<^verbatim>\<open>wparam\<close>.
\<close>

definition case_WM_KEY ::
  "host \<Rightarrow> ptr \<Rightarrow> ptr \<Rightarrow> UINT \<Rightarrow> WPARAM \<Rightarrow> LPARAM \<Rightarrow> machine \<Rightarrow> effect list \<times> machine" where
  "case_WM_KEY h this window message wparam lparam m =
     (let is_keydown_message = (message = WM_KEYDOWN \<or> message = WM_SYSKEYDOWN);
          character = MapVirtualKey h (ucast wparam) MAPVK_VK_TO_CHAR
      in if 0 < character \<and> is_keydown_message
         then ([], update_object this (\<lambda>w. w\<lparr>keycode_for_char_message := ucast wparam\<rparr>) m)
         else
           (let keyCode0 = (ucast wparam :: UINT);
                scancode = scancode_of lparam;
                keyCode = (if keyCode0 = VK_SHIFT \<or> keyCode0 = VK_MENU \<or> keyCode0 = VK_CONTROL
                           then MapVirtualKey h scancode MAPVK_VSC_TO_VK_EX else keyCode0);
                action = (if is_keydown_message then WM_KEYDOWN else WM_KEYUP)
            in ([Callback window (OnKey keyCode scancode action 0)], m)))"

text \<open>
  The handler itself. \<^verbatim>\<open>window\<close> is read from the user-data slot of \<open>hwnd\<close>; when it is
  null the default procedure is called on the receiver's own handle. The DPI case returns
  \<open>0\<close> and the \<^verbatim>\<open>WM_UNICHAR\<close> probe returns \<^verbatim>\<open>TRUE\<close>; every other case breaks
  out of the switch to \<^verbatim>\<open>return DefWindowProc(hwnd, message, wparam, lparam)\<close>, and so
  does a message with no case.
\<close>

definition MessageHandler ::
  "host \<Rightarrow> ptr \<Rightarrow> HWND \<Rightarrow> UINT \<Rightarrow> WPARAM \<Rightarrow> LPARAM \<Rightarrow> machine
     \<Rightarrow> LRESULT \<times> effect list \<times> machine" where
  "MessageHandler h this hwnd message wparam lparam m =
     (let window = userdata m hwnd in
      if window \<noteq> 0 then
        if message = kWmDpiChangedBeforeParent then
          (let dpi = GetDpiForHWND h (window_handle (objects m this));
               m1 = update_object this (\<lambda>w. w\<lparr>current_dpi := dpi\<rparr>) m
           in (Value 0, [Callback window (OnDpiScale (current_dpi (objects m1 this)))], m1))
        else if message = WM_UNICHAR \<and> wparam = UNICODE_NOCHAR then (Value 1, [], m)
        else
          (DefWindowProc hwnd message wparam lparam,
           (if message = WM_SIZE then case_WM_SIZE this window lparam m
            else if message = WM_FONTCHANGE then ([Callback window OnFontChange], m)
            else if message = WM_MOUSEMOVE then case_WM_MOUSEMOVE window hwnd lparam m
            else if message = WM_MOUSELEAVE then case_WM_MOUSELEAVE this window m
            else if message = WM_LBUTTONDOWN \<or> message = WM_RBUTTONDOWN \<or>
                    message = WM_MBUTTONDOWN \<or> message = WM_XBUTTONDOWN
              then case_BUTTONDOWN window hwnd message wparam lparam m
            else if message = WM_LBUTTONUP \<or> message = WM_RBUTTONUP \<or>
                    message = WM_MBUTTONUP \<or> message = WM_XBUTTONUP
              then case_BUTTONUP window message wparam lparam m
            else if message = WM_MOUSEWHEEL
              then ([Callback window (OnScroll (sint (HIWORD wparam)))], m)
            else if message = WM_UNICHAR then ([], m)
            else if message = WM_DEADCHAR \<or> message = WM_SYSDEADCHAR \<or>
                    message = WM_CHAR \<or> message = WM_SYSCHAR
              then case_WM_CHAR this window message wparam lparam m
            else if message = WM_KEYDOWN \<or> message = WM_SYSKEYDOWN \<or>
                    message = WM_KEYUP \<or> message = WM_SYSKEYUP
              then case_WM_KEY h this window message wparam lparam m
            else ([], m)))
      else (DefWindowProc (window_handle (objects m this)) message wparam lparam, [], m))"

subsection \<open>WndProc and the message stream\<close>

text \<open>
  \<^verbatim>\<open>
  if (message == WM_NCCREATE) {
    auto cs = reinterpret_cast<CREATESTRUCT*>(lparam);
    SetWindowLongPtr(window, GWLP_USERDATA, reinterpret_cast<LONG_PTR>(cs->lpCreateParams));
    auto that = static_cast<Win32Window*>(cs->lpCreateParams);
    that->window_handle_ = window;
  } else if (Win32Window* that = GetThisFromHandle(window)) {
    return that->MessageHandler(window, message, wparam, lparam);
  }
  return DefWindowProc(window, message, wparam, lparam);
  \<close>
  \<^verbatim>\<open>GetThisFromHandle\<close> reads the user-data slot of the handle.
\<close>

definition GetThisFromHandle :: "HWND \<Rightarrow> machine \<Rightarrow> ptr" where
  "GetThisFromHandle window m = userdata m window"

definition WndProc ::
  "host \<Rightarrow> HWND \<Rightarrow> UINT \<Rightarrow> WPARAM \<Rightarrow> LPARAM \<Rightarrow> machine \<Rightarrow> LRESULT \<times> effect list \<times> machine" where
  "WndProc h window message wparam lparam m =
     (if message = WM_NCCREATE then
        (let that = lpCreateParams m lparam;
             m1 = m\<lparr>userdata := (userdata m)(window := that)\<rparr>
         in if that = 0 then (NullDereference, [Native (SetWindowLongPtr window that)], m1)
            else (DefWindowProc window message wparam lparam,
                  [Native (SetWindowLongPtr window that)],
                  update_object that (\<lambda>w. w\<lparr>window_handle := window\<rparr>) m1))
      else if GetThisFromHandle window m \<noteq> 0
        then MessageHandler h (GetThisFromHandle window m) window message wparam lparam m
      else (DefWindowProc window message wparam lparam, [], m))"

text \<open>
  The host delivers messages one at a time, each to \<^verbatim>\<open>WndProc\<close> with its handle; the
  effects of a stream are those of its messages in order. Delivery ends where a call does
  not return.
\<close>

type_synonym MSG = "HWND \<times> UINT \<times> WPARAM \<times> LPARAM"

fun deliver :: "host \<Rightarrow> MSG list \<Rightarrow> machine \<Rightarrow> bool \<times> effect list \<times> machine" where
  "deliver h [] m = (True, [], m)"
| "deliver h ((hwnd, message, wparam, lparam) # msgs) m =
     (case WndProc h hwnd message wparam lparam m of
        (NullDereference, es, m1) \<Rightarrow> (False, es, m1)
      | (_, es, m1) \<Rightarrow> (let (ok, es', m2) = deliver h msgs m1 in (ok, es @ es', m2)))"

subsection \<open>InitializeChild\<close>

text \<open>
  \<^verbatim>\<open>
  std::wstring Win32Window::NarrowToWide(const char* source) {
    size_t length = strlen(source);
    size_t outlen = 0;
    std::wstring wideTitle(length, L'#');
    mbstowcs_s(&outlen, &wideTitle[0], length + 1, source, length);
    return wideTitle;
  }
  \<close>
  The host's conversion writes the converted units and a terminating zero over the buffer of
  \<^verbatim>\<open>length\<close> number signs.
\<close>

definition NarrowToWide :: "host \<Rightarrow> string \<Rightarrow> wstring" where
  "NarrowToWide h source =
     (let length = length source
      in take length (mbstowcs h source @ [0] @ replicate length 35))"

text \<open>
  \<^verbatim>\<open>
  WNDCLASS Win32Window::RegisterWindowClass(std::wstring& title) {
    window_class_name_ = title;
    WNDCLASS window_class{};
    ... window_class.lpszClassName = title.c_str(); ... window_class.lpfnWndProc = WndProc;
    RegisterClass(&window_class);
    return window_class;
  }
  \<close>
  The class structure that is returned is known by its name, \<^verbatim>\<open>title.c_str()\<close>.
\<close>

definition RegisterWindowClass :: "ptr \<Rightarrow> wstring \<Rightarrow> machine \<Rightarrow> wstring \<times> effect list \<times> machine" where
  "RegisterWindowClass this title m =
     (c_str title, [Native (RegisterClass (c_str title))],
      update_object this (\<lambda>w. w\<lparr>window_class_name := title\<rparr>) m)"

text \<open>
  What the host does inside \<^verbatim>\<open>CreateWindowEx\<close> is a parameter: the handle of the new
  window, the address of the \<^verbatim>\<open>CREATESTRUCT\<close> that carries the caller's last argument,
  the messages the host sends to the window procedure of the class before the call returns,
  and the handle the call returns (\<open>0\<close> on failure).
\<close>

record creation =
  new_window :: HWND
  create_struct :: LPARAM
  creation_messages :: "(UINT \<times> WPARAM \<times> LPARAM) list"
  result :: HWND

definition creation_stream :: "creation \<Rightarrow> MSG list" where
  "creation_stream c = map (\<lambda>(message, wparam, lparam). (new_window c, message, wparam, lparam))
                          (creation_messages c)"

definition host_CreateWindowEx ::
  "host \<Rightarrow> creation \<Rightarrow> ptr \<Rightarrow> machine \<Rightarrow> bool \<times> effect list \<times> machine" where
  "host_CreateWindowEx h c lpParam m =
     deliver h (creation_stream c)
       (m\<lparr>lpCreateParams := (lpCreateParams m)(create_struct c := lpParam)\<rparr>)"

text \<open>
  \<^verbatim>\<open>
  void Win32Window::InitializeChild(const char* title, unsigned int width, unsigned int height) {
    Destroy();
    std::wstring converted_title = NarrowToWide(title);
    WNDCLASS window_class = RegisterWindowClass(converted_title);
    auto* result = CreateWindowEx(0, window_class.lpszClassName, converted_title.c_str(),
        WS_CHILD | WS_VISIBLE, CW_DEFAULT, CW_DEFAULT, width, height,
        HWND_MESSAGE, nullptr, window_class.hInstance, this);
    if (result == nullptr) {
      auto error = GetLastError();
      ... FormatMessageW ...
      OutputDebugString(message);
      LocalFree(message);
    }
  }
  \<close>
  The first two steps, up to the call of \<^verbatim>\<open>CreateWindowEx\<close>, are \<open>InitializeChild_begin\<close>.
\<close>

definition InitializeChild_begin ::
  "host \<Rightarrow> ptr \<Rightarrow> string \<Rightarrow> machine \<Rightarrow> wstring \<times> effect list \<times> machine" where
  "InitializeChild_begin h this title m =
     (let (es1, m1) = Destroy this m;
          converted_title = NarrowToWide h title;
          (window_class, es2, m2) = RegisterWindowClass this converted_title m1
      in (window_class, es1 @ es2, m2))"

definition InitializeChild ::
  "host \<Rightarrow> creation \<Rightarrow> ptr \<Rightarrow> string \<Rightarrow> UINT \<Rightarrow> UINT \<Rightarrow> machine
     \<Rightarrow> bool \<times> effect list \<times> machine" where
  "InitializeChild h c this title width height m =
     (let converted_title = NarrowToWide h title;
          (window_class, es, m2) = InitializeChild_begin h this title m;
          call = Native (CreateWindowEx window_class (c_str converted_title) width height this);
          (ok, es3, m3) = host_CreateWindowEx h c this m2
      in if \<not> ok then (False, es @ [call] @ es3, m3)
         else if result c = 0 then (True, es @ [call] @ es3 @ [Native OutputDebugString], m3)
         else (True, es @ [call] @ es3, m3))"

subsection \<open>A concrete process\<close>

text \<open>
  Two Logical Windows, at addresses 100 and 200, own the handles 10 and 20; the host maps no key
  to a character except the letter keys and the digit keys, which map to themselves.
\<close>

definition fresh_window :: Win32Window where
  "fresh_window = \<lparr>current_dpi = 96, current_width = 0, current_height = 0,
                    window_handle = 0, window_class_name = [], tracking_mouse_leave = False,
                    keycode_for_char_message = 0\<rparr>"

definition two_windows :: machine where
  "two_windows =
     \<lparr>objects = (\<lambda>p. fresh_window)
                  (100 := fresh_window\<lparr>window_handle := 10\<rparr>,
                   200 := fresh_window\<lparr>window_handle := 20\<rparr>),
      userdata = (\<lambda>w. 0)(10 := 100, 20 := 200),
      lead_surrogate = 0,
      lpCreateParams = (\<lambda>a. 0)\<rparr>"

definition some_host :: host where
  "some_host =
     \<lparr>GetDpiForHWND = (\<lambda>w. 96),
      MapVirtualKey = (\<lambda>code kind.
         if kind = MAPVK_VK_TO_CHAR \<and> 0x30 \<le> code \<and> code \<le> 0x5A then code else 0),
      mbstowcs = map of_char\<rparr>"

text \<open>The four message subtypes that the character case of the handler covers.\<close>

definition character_family :: "UINT \<Rightarrow> bool" where
  "character_family message =
     (message = WM_DEADCHAR \<or> message = WM_SYSDEADCHAR \<or> message = WM_CHAR \<or> message = WM_SYSCHAR)"

text \<open>The same process after a key-down of the key \<open>A\<close> on the first window.\<close>

definition key_pending :: machine where
  "key_pending = update_object 100 (\<lambda>w. w\<lparr>keycode_for_char_message := 0x41\<rparr>) two_windows"

text \<open>A run of pointer-move messages to one window, given by their parameters.\<close>

definition pointer_moves :: "HWND \<Rightarrow> (WPARAM \<times> LPARAM) list \<Rightarrow> MSG list" where
  "pointer_moves hwnd ps = map (\<lambda>(wparam, lparam). (hwnd, WM_MOUSEMOVE, wparam, lparam)) ps"

text \<open>
  A creation in which the host sends one message ahead of \<^verbatim>\<open>WM_NCCREATE\<close> to the new
  window 30.
\<close>

definition some_creation :: creation where
  "some_creation = \<lparr>new_window = 30, create_struct = 0x7000,
                      creation_messages = [(0x0024, 0, 0), (WM_NCCREATE, 0, 0x7000)],
                      result = 30\<rparr>"

section \<open>Properties\<close>

subsection \<open>The store\<close>

lemma userdata_update_object [simp]: "userdata (update_object p f m) = userdata m"
  by (simp add: update_object_def)

lemma lead_surrogate_update_object [simp]:
  "lead_surrogate (update_object p f m) = lead_surrogate m"
  by (simp add: update_object_def)

lemma lpCreateParams_update_object [simp]:
  "lpCreateParams (update_object p f m) = lpCreateParams m"
  by (simp add: update_object_def)

lemma objects_update_object [simp]:
  "objects (update_object p f m) q = (if q = p then f (objects m p) else objects m q)"
  by (simp add: update_object_def)

lemma two_windows_userdata [simp]:
  "userdata two_windows 10 = 100" "userdata two_windows 20 = 200"
  by (simp_all add: two_windows_def)

lemma two_windows_lead_surrogate [simp]: "lead_surrogate two_windows = 0"
  by (simp add: two_windows_def)

lemma two_windows_objects [simp]:
  "objects two_windows 100 = fresh_window\<lparr>window_handle := 10\<rparr>"
  "objects two_windows 200 = fresh_window\<lparr>window_handle := 20\<rparr>"
  by (simp_all add: two_windows_def)

subsection \<open>Teardown\<close>

text \<open>
  C8. \<^verbatim>\<open>Destroy\<close> is idempotent on the state. With a handle set it asks the host to destroy
  the window and clears the stored handle; in either case it then asks the host to unregister
  the window class, so a second \<^verbatim>\<open>Destroy\<close> only repeats the unregistration and leaves the
  state of the first.
\<close>

theorem Destroy_idempotent:
  "snd (Destroy this (snd (Destroy this m))) = snd (Destroy this m)
   \<and> window_handle (objects (snd (Destroy this m)) this) = 0
   \<and> fst (Destroy this m) =
       (if window_handle (objects m this) \<noteq> 0
        then [Native (DestroyWindow (window_handle (objects m this)))] else [])
       @ [Native (UnregisterClass (c_str (window_class_name (objects m this))))]
   \<and> fst (Destroy this (snd (Destroy this m))) =
       [Native (UnregisterClass (c_str (window_class_name (objects m this))))]"
  by (simp add: Destroy_def Let_def)

subsection \<open>Pointer leave tracking\<close>

text \<open>
  C9. A mouse-leave message that reaches a Logical Window calls \<^verbatim>\<open>OnPointerLeave\<close> and sets
  the leave-tracking flag to false whatever the flag was before: the handler does not read it.
\<close>

theorem mouse_leave_unconditional:
  assumes "userdata m hwnd = w" and "w \<noteq> 0"
  shows "WndProc h hwnd WM_MOUSELEAVE wparam lparam m =
           (DefWindowProc hwnd WM_MOUSELEAVE wparam lparam,
            [Callback w OnPointerLeave],
            update_object w (\<lambda>x. x\<lparr>tracking_mouse_leave := False\<rparr>) m)
         \<and> tracking_mouse_leave
             (objects (snd (snd (WndProc h hwnd WM_MOUSELEAVE wparam lparam m))) w) = False"
  using assms
  by (simp add: WndProc_def GetThisFromHandle_def MessageHandler_def case_WM_MOUSELEAVE_def)

theorem mouse_leave_unconditional_witness:
  "userdata two_windows 10 = 100 \<and> (100::nat) \<noteq> 0
   \<and> \<not> tracking_mouse_leave (objects two_windows 100)
   \<and> fst (snd (WndProc some_host 10 WM_MOUSELEAVE 0 0 two_windows)) =
       [Callback 100 OnPointerLeave]
   \<and> tracking_mouse_leave
        (objects (snd (snd (WndProc some_host 10 WM_MOUSELEAVE 0 0 two_windows))) 100) = False"
proof -
  have a: "userdata two_windows 10 = 100" by simp
  have b: "(100::nat) \<noteq> 0" by simp
  have c: "\<not> tracking_mouse_leave (objects two_windows 100)"
    by (simp add: fresh_window_def)
  from mouse_leave_unconditional [OF a b, of some_host 0 0] a c show ?thesis by simp
qed

subsection \<open>The character case\<close>

lemma WndProc_character:
  assumes "character_family message" and "userdata m hwnd = w" and "w \<noteq> 0"
  shows "WndProc h hwnd message wparam lparam m =
           (DefWindowProc hwnd message wparam lparam,
            case_WM_CHAR w w message wparam lparam m)"
  using assms
  by (auto simp add: character_family_def WndProc_def GetThisFromHandle_def MessageHandler_def)

lemma case_WM_CHAR_events:
  "events (fst (case_WM_CHAR this window message wparam lparam m)) =
     (if wparam \<noteq> 8 \<and> message \<noteq> WM_DEADCHAR \<and> message \<noteq> WM_SYSDEADCHAR
      then [OnChar (fst (merge_surrogates (ucast wparam) (lead_surrogate m)))] else [])
     @ (if keycode_for_char_message (objects m this) \<noteq> 0
        then [OnKey (keycode_for_char_message (objects m this)) (scancode_of lparam) WM_KEYDOWN
               (fst (merge_surrogates (ucast wparam) (lead_surrogate m)))]
        else [])"
  by (simp add: case_WM_CHAR_def Let_def split: prod.split)

lemma case_WM_CHAR_lead:
  "lead_surrogate (snd (case_WM_CHAR this window message wparam lparam m)) =
     snd (merge_surrogates (ucast wparam) (lead_surrogate m))"
  by (simp add: case_WM_CHAR_def Let_def split: prod.split)

lemma case_WM_CHAR_userdata:
  "userdata (snd (case_WM_CHAR this window message wparam lparam m)) = userdata m"
  by (simp add: case_WM_CHAR_def Let_def split: prod.split)

lemma case_WM_CHAR_keycode:
  "keycode_for_char_message (objects (snd (case_WM_CHAR this window message wparam lparam m)) this) = 0"
  by (simp add: case_WM_CHAR_def Let_def split: prod.split)

lemma key_pending_simps [simp]:
  "userdata key_pending 10 = 100" "userdata key_pending 20 = 200"
  "lead_surrogate key_pending = 0"
  "keycode_for_char_message (objects key_pending 100) = 0x41"
  by (simp_all add: key_pending_def)

lemma merge_surrogates_high:
  "code_point AND 0xFFFFFC00 = 0xD800 \<Longrightarrow> merge_surrogates code_point lead = (code_point, code_point)"
  by (simp add: merge_surrogates_def)

lemma merge_surrogates_low:
  "code_point AND 0xFFFFFC00 = 0xDC00 \<Longrightarrow> lead \<noteq> 0 \<Longrightarrow>
   merge_surrogates code_point lead =
     (0x10000 + push_bit 10 (lead AND 0x3FF) + (code_point AND 0x3FF), 0)"
  by (simp add: merge_surrogates_def)

lemma merge_surrogates_other:
  "code_point AND 0xFFFFFC00 \<noteq> 0xD800 \<Longrightarrow> code_point AND 0xFFFFFC00 \<noteq> 0xDC00 \<Longrightarrow>
   merge_surrogates code_point lead = (code_point, lead)"
  by (simp add: merge_surrogates_def)

lemma high_surrogate_nonzero:
  "(code_point :: char32_t) AND 0xFFFFFC00 = 0xD800 \<Longrightarrow> code_point \<noteq> 0"
  by auto

lemma low_surrogate_not_backspace:
  "(ucast (wparam :: WPARAM) :: char32_t) AND 0xFFFFFC00 = 0xDC00 \<Longrightarrow> wparam \<noteq> 8"
  by auto


text \<open>
  C5. For a character-family message that reaches a Logical Window, \<^verbatim>\<open>OnChar\<close> is called
  if and only if the message is \<^verbatim>\<open>WM_CHAR\<close> or \<^verbatim>\<open>WM_SYSCHAR\<close> and the parameter is
  not the backspace code. A dead-char message never calls \<^verbatim>\<open>OnChar\<close>, whatever its code
  point, and with a key code pending it still calls \<^verbatim>\<open>OnKey\<close> with that key code, the
  scancode of the message, the key-down action and the resolved code point.
\<close>

theorem Char_iff_plain_and_not_backspace:
  assumes "character_family message" and "userdata m hwnd = w" and "w \<noteq> 0"
  shows "(filter is_OnChar (events (fst (snd (WndProc h hwnd message wparam lparam m)))) \<noteq> [])
           = ((message = WM_CHAR \<or> message = WM_SYSCHAR) \<and> wparam \<noteq> ucast VK_BACK)
       \<and> ((message = WM_DEADCHAR \<or> message = WM_SYSDEADCHAR) \<longrightarrow>
            filter is_OnChar (events (fst (snd (WndProc h hwnd message wparam lparam m)))) = [])
       \<and> ((message = WM_DEADCHAR \<or> message = WM_SYSDEADCHAR) \<and>
            keycode_for_char_message (objects m w) \<noteq> 0 \<longrightarrow>
            events (fst (snd (WndProc h hwnd message wparam lparam m))) =
              [OnKey (keycode_for_char_message (objects m w)) (scancode_of lparam) WM_KEYDOWN
                 (fst (merge_surrogates (ucast wparam) (lead_surrogate m)))])"
  using assms
  by (auto simp add: WndProc_character case_WM_CHAR_events character_family_def)


theorem Char_iff_plain_and_not_backspace_witness:
  "character_family WM_DEADCHAR \<and> userdata key_pending 10 = 100 \<and> (100::nat) \<noteq> 0
   \<and> keycode_for_char_message (objects key_pending 100) \<noteq> 0
   \<and> events (fst (snd (WndProc some_host 10 WM_DEADCHAR 0x60 0x290001 key_pending))) =
        [OnKey 0x41 0x29 WM_KEYDOWN 0x60]"
proof -
  have a: "character_family WM_DEADCHAR" by (simp add: character_family_def)
  have b: "userdata key_pending 10 = 100" by simp
  have c: "(100::nat) \<noteq> 0" by simp
  from Char_iff_plain_and_not_backspace [where h = some_host and wparam = "0x60" and lparam = "0x290001", OF a b c] a b
  show ?thesis by (simp add: merge_surrogates_def scancode_of_def)
qed


text \<open>
  C1, as the code has it. A character-family message whose code point lies in the
  high-surrogate range stores the code point in \<^verbatim>\<open>lead_surrogate\<close>, and the handler goes
  on: with a key code pending, a \<^verbatim>\<open>WM_CHAR\<close> carrying \<open>0xD83D\<close> calls \<^verbatim>\<open>OnChar\<close> and
  \<^verbatim>\<open>OnKey\<close> with the lead surrogate, and a \<^verbatim>\<open>WM_DEADCHAR\<close> carrying it calls
  \<^verbatim>\<open>OnKey\<close>.
\<close>

theorem lead_surrogate_message_emits_counterexample:
  "events (fst (snd (WndProc some_host 10 WM_CHAR 0xD83D 0x1E0001 key_pending))) =
     [OnChar 0xD83D, OnKey 0x41 0x1E WM_KEYDOWN 0xD83D]
   \<and> events (fst (snd (WndProc some_host 10 WM_DEADCHAR 0xD83D 0x1E0001 key_pending))) =
     [OnKey 0x41 0x1E WM_KEYDOWN 0xD83D]"
  by (simp add: WndProc_character character_family_def case_WM_CHAR_events
      merge_surrogates_def scancode_of_def)


text \<open>
  C1, amended. A character-family message whose code point lies in the high-surrogate range
  stores the code point as the pending lead surrogate, and key correlation then runs as for
  any character message: with a key code pending, exactly one \<^verbatim>\<open>OnKey\<close> is called, with
  that key code, the scancode of the message, the key-down action and the lead surrogate,
  and the pending key code is cleared; with none pending, \<^verbatim>\<open>OnKey\<close> is not called.
\<close>

theorem lead_surrogate_stored_key_correlated:
  assumes "character_family message" and "userdata m hwnd = w" and "w \<noteq> 0"
    and "(ucast wparam :: char32_t) AND 0xFFFFFC00 = 0xD800"
  shows "lead_surrogate (snd (snd (WndProc h hwnd message wparam lparam m))) = ucast wparam
       \<and> filter is_OnKey (events (fst (snd (WndProc h hwnd message wparam lparam m)))) =
           (if keycode_for_char_message (objects m w) \<noteq> 0
            then [OnKey (keycode_for_char_message (objects m w)) (scancode_of lparam) WM_KEYDOWN
                    (ucast wparam)]
            else [])
       \<and> keycode_for_char_message
           (objects (snd (snd (WndProc h hwnd message wparam lparam m))) w) = 0"
  using assms
  by (simp add: WndProc_character case_WM_CHAR_events case_WM_CHAR_lead case_WM_CHAR_keycode
      merge_surrogates_high)

theorem lead_surrogate_stored_key_correlated_witness:
  "character_family WM_CHAR \<and> userdata key_pending 10 = 100 \<and> (100::nat) \<noteq> 0
   \<and> (ucast (0xD83D :: WPARAM) :: char32_t) AND 0xFFFFFC00 = 0xD800
   \<and> lead_surrogate (snd (snd (WndProc some_host 10 WM_CHAR 0xD83D 0x1E0001 key_pending))) = 0xD83D
   \<and> filter is_OnKey
        (events (fst (snd (WndProc some_host 10 WM_CHAR 0xD83D 0x1E0001 key_pending)))) =
        [OnKey 0x41 0x1E WM_KEYDOWN 0xD83D]
   \<and> keycode_for_char_message
        (objects (snd (snd (WndProc some_host 10 WM_CHAR 0xD83D 0x1E0001 key_pending))) 100) = 0"
proof -
  have a: "character_family WM_CHAR" by (simp add: character_family_def)
  have b: "userdata key_pending 10 = 100" by simp
  have c: "(100::nat) \<noteq> 0" by simp
  have d: "(ucast (0xD83D :: WPARAM) :: char32_t) AND 0xFFFFFC00 = 0xD800" by simp
  from lead_surrogate_stored_key_correlated [where h = some_host and lparam = "0x1E0001", OF a b c d] a b d
  show ?thesis by (simp add: scancode_of_def)
qed


text \<open>
  C2, at the keystroke of U+1F600. The lead surrogate \<open>0xD83D\<close> and the trail surrogate
  \<open>0xDE00\<close> arrive in two \<^verbatim>\<open>WM_CHAR\<close> messages. The second message carries the merged
  value \<open>0x1F600\<close> and clears the pending lead, but the first has already called
  \<^verbatim>\<open>OnChar\<close> with the lone lead surrogate: the pair yields two calls of \<^verbatim>\<open>OnChar\<close>.
\<close>

theorem surrogate_pair_two_Char_events:
  "fst (snd (deliver some_host [(10, WM_CHAR, 0xD83D, 0), (10, WM_CHAR, 0xDE00, 0)] two_windows)) =
     [Callback 100 (OnChar 0xD83D), Callback 100 (OnChar 0x1F600)]
   \<and> lead_surrogate
       (snd (snd (deliver some_host [(10, WM_CHAR, 0xD83D, 0), (10, WM_CHAR, 0xDE00, 0)]
                    two_windows))) = 0"
  by (simp add: WndProc_character character_family_def case_WM_CHAR_def
      merge_surrogates_def fresh_window_def Let_def)

lemma Destroy_lead_surrogate: "lead_surrogate (snd (Destroy this m)) = lead_surrogate m"
  by (simp add: Destroy_def Let_def)

lemma case_WM_CHAR_effects:
  "fst (case_WM_CHAR this window message wparam lparam m) =
     (if wparam \<noteq> 8 \<and> message \<noteq> WM_DEADCHAR \<and> message \<noteq> WM_SYSDEADCHAR
      then [Callback window (OnChar (fst (merge_surrogates (ucast wparam) (lead_surrogate m))))]
      else [])
     @ (if keycode_for_char_message (objects m this) \<noteq> 0
        then [Callback window
               (OnKey (keycode_for_char_message (objects m this)) (scancode_of lparam) WM_KEYDOWN
                  (fst (merge_surrogates (ucast wparam) (lead_surrogate m))))]
        else [])"
  by (simp add: case_WM_CHAR_def Let_def split: prod.split)


text \<open>
  C3, as the code has it. A \<^verbatim>\<open>WM_CHAR\<close> carrying the letter \<open>a\<close> after one carrying the
  lead surrogate \<open>0xD83D\<close> leaves the lead pending, and the trail surrogate \<open>0xDE00\<close> that
  comes third is merged with it into \<open>0x1F600\<close>.
\<close>

theorem stale_lead_surrogate_merges_counterexample:
  "lead_surrogate
     (snd (snd (deliver some_host [(10, WM_CHAR, 0xD83D, 0), (10, WM_CHAR, 0x61, 0)] two_windows)))
     = 0xD83D
   \<and> events (fst (snd (deliver some_host
         [(10, WM_CHAR, 0xD83D, 0), (10, WM_CHAR, 0x61, 0), (10, WM_CHAR, 0xDE00, 0)]
         two_windows))) = [OnChar 0xD83D, OnChar 0x61, OnChar 0x1F600]"
  by (simp add: WndProc_character character_family_def case_WM_CHAR_def
      merge_surrogates_def fresh_window_def Let_def)


text \<open>
  C3, amended. A character message whose code point is neither a high nor a low surrogate
  leaves the pending lead surrogate as it was and is processed with its own code point,
  which does not depend on the pending value; a low surrogate that arrives after it is still
  merged with a lead surrogate stored before it.
\<close>

theorem non_surrogate_keeps_pending_lead:
  assumes "character_family message" and "userdata m hwnd = w" and "w \<noteq> 0"
    and "(ucast wparam :: char32_t) AND 0xFFFFFC00 \<noteq> 0xD800"
    and "(ucast wparam :: char32_t) AND 0xFFFFFC00 \<noteq> 0xDC00"
  shows "lead_surrogate (snd (snd (WndProc h hwnd message wparam lparam m))) = lead_surrogate m
       \<and> events (fst (snd (WndProc h hwnd message wparam lparam m))) =
           (if wparam \<noteq> ucast VK_BACK \<and> (message = WM_CHAR \<or> message = WM_SYSCHAR)
            then [OnChar (ucast wparam)] else [])
           @ (if keycode_for_char_message (objects m w) \<noteq> 0
              then [OnKey (keycode_for_char_message (objects m w)) (scancode_of lparam)
                      WM_KEYDOWN (ucast wparam)]
              else [])
       \<and> (lead_surrogate m \<noteq> 0 \<and> (message' = WM_CHAR \<or> message' = WM_SYSCHAR)
            \<and> (ucast wparam' :: char32_t) AND 0xFFFFFC00 = 0xDC00 \<longrightarrow>
          events (fst (snd (WndProc h hwnd message' wparam' lparam'
                             (snd (snd (WndProc h hwnd message wparam lparam m)))))) =
            [OnChar (0x10000 + push_bit 10 (lead_surrogate m AND 0x3FF)
                       + (ucast wparam' AND 0x3FF))])"
proof -
  let ?m1 = "snd (case_WM_CHAR w w message wparam lparam m)"
  have step: "WndProc h hwnd message wparam lparam m =
      (DefWindowProc hwnd message wparam lparam, case_WM_CHAR w w message wparam lparam m)"
    using assms(1-3) by (rule WndProc_character)
  have ms: "merge_surrogates (ucast wparam) (lead_surrogate m) = (ucast wparam, lead_surrogate m)"
    using assms(4,5) by (rule merge_surrogates_other)
  have lead: "lead_surrogate ?m1 = lead_surrogate m"
    by (simp add: case_WM_CHAR_lead ms)
  have ev: "events (fst (case_WM_CHAR w w message wparam lparam m)) =
           (if wparam \<noteq> ucast VK_BACK \<and> (message = WM_CHAR \<or> message = WM_SYSCHAR)
            then [OnChar (ucast wparam)] else [])
           @ (if keycode_for_char_message (objects m w) \<noteq> 0
              then [OnKey (keycode_for_char_message (objects m w)) (scancode_of lparam)
                      WM_KEYDOWN (ucast wparam)]
              else [])"
    using assms(1) by (auto simp add: case_WM_CHAR_events ms character_family_def)
  have later: "events (fst (snd (WndProc h hwnd message' wparam' lparam' ?m1))) =
            [OnChar (0x10000 + push_bit 10 (lead_surrogate m AND 0x3FF)
                       + (ucast wparam' AND 0x3FF))]"
    if a: "lead_surrogate m \<noteq> 0" and b: "message' = WM_CHAR \<or> message' = WM_SYSCHAR"
      and c: "(ucast wparam' :: char32_t) AND 0xFFFFFC00 = 0xDC00"
  proof -
    have fam: "character_family message'" using b by (auto simp add: character_family_def)
    have ud: "userdata ?m1 hwnd = w" using assms(2) by (simp add: case_WM_CHAR_userdata)
    have nb: "wparam' \<noteq> 8" using c by (rule low_surrogate_not_backspace)
    have ms': "merge_surrogates (ucast wparam') (lead_surrogate ?m1) =
        (0x10000 + push_bit 10 (lead_surrogate m AND 0x3FF) + (ucast wparam' AND 0x3FF), 0)"
      using c a by (simp add: lead merge_surrogates_low)
    show ?thesis
      using b nb
      by (auto simp add: WndProc_character [OF fam ud assms(3)] case_WM_CHAR_events ms'
          case_WM_CHAR_keycode)
  qed
  show ?thesis
    using lead ev later by (simp add: step)
qed

theorem non_surrogate_keeps_pending_lead_witness:
  "character_family WM_CHAR \<and> userdata (two_windows\<lparr>lead_surrogate := 0xD83D\<rparr>) 10 = 100
   \<and> (100::nat) \<noteq> 0
   \<and> (ucast (0x61 :: WPARAM) :: char32_t) AND 0xFFFFFC00 \<noteq> 0xD800
   \<and> (ucast (0x61 :: WPARAM) :: char32_t) AND 0xFFFFFC00 \<noteq> 0xDC00
   \<and> lead_surrogate (two_windows\<lparr>lead_surrogate := 0xD83D\<rparr>) \<noteq> 0
   \<and> (ucast (0xDE00 :: WPARAM) :: char32_t) AND 0xFFFFFC00 = 0xDC00
   \<and> lead_surrogate (snd (snd (WndProc some_host 10 WM_CHAR 0x61 0
                                   (two_windows\<lparr>lead_surrogate := 0xD83D\<rparr>)))) = 0xD83D
   \<and> events (fst (snd (WndProc some_host 10 WM_CHAR 0x61 0
                          (two_windows\<lparr>lead_surrogate := 0xD83D\<rparr>)))) = [OnChar 0x61]
   \<and> events (fst (snd (WndProc some_host 10 WM_CHAR 0xDE00 0
                (snd (snd (WndProc some_host 10 WM_CHAR 0x61 0
                             (two_windows\<lparr>lead_surrogate := 0xD83D\<rparr>))))))) = [OnChar 0x1F600]"
proof -
  let ?m = "two_windows\<lparr>lead_surrogate := 0xD83D\<rparr>"
  have a: "character_family WM_CHAR" by (simp add: character_family_def)
  have b: "userdata ?m 10 = 100" by (simp add: two_windows_def)
  have c: "(100::nat) \<noteq> 0" by simp
  have d: "(ucast (0x61 :: WPARAM) :: char32_t) AND 0xFFFFFC00 \<noteq> 0xD800" by simp
  have e: "(ucast (0x61 :: WPARAM) :: char32_t) AND 0xFFFFFC00 \<noteq> 0xDC00" by simp
  have k: "keycode_for_char_message (objects ?m 100) = 0"
    by (simp add: two_windows_def fresh_window_def)
  from non_surrogate_keeps_pending_lead [where h = some_host and lparam = 0
      and message' = WM_CHAR and wparam' = "0xDE00" and lparam' = 0, OF a b c d e] a b k
  show ?thesis by simp
qed


text \<open>
  C7, as the code has it. The lead surrogate that the handler of the first window stores is
  merged with the trail surrogate that the handler of the second window receives next, it is
  still there after the first window is destroyed, and it is merged even then.
\<close>

theorem lead_surrogate_crosses_windows_counterexample:
  "fst (snd (deliver some_host [(10, WM_CHAR, 0xD83D, 0), (20, WM_CHAR, 0xDE00, 0)] two_windows))
     = [Callback 100 (OnChar 0xD83D), Callback 200 (OnChar 0x1F600)]
   \<and> lead_surrogate
        (snd (Destroy 100 (snd (snd (WndProc some_host 10 WM_CHAR 0xD83D 0 two_windows)))))
      = 0xD83D
   \<and> fst (snd (WndProc some_host 20 WM_CHAR 0xDE00 0
        (snd (Destroy 100 (snd (snd (WndProc some_host 10 WM_CHAR 0xD83D 0 two_windows)))))))
      = [Callback 200 (OnChar 0x1F600)]"
  by (simp add: WndProc_character character_family_def case_WM_CHAR_def
      merge_surrogates_def fresh_window_def Let_def Destroy_def)


text \<open>
  C7, amended. The pending lead surrogate is one static of the handler, shared by every
  Logical Window of the process and no part of any window's state: a high surrogate delivered
  to the handler of a window \<open>A\<close> is stored in it, \<^verbatim>\<open>Destroy\<close> of \<open>A\<close> leaves it as it is,
  and a low surrogate delivered next to the handler of any window \<open>B\<close> in a plain or system
  character message is merged with it into one \<^verbatim>\<open>OnChar\<close> call on \<open>B\<close>, which clears it.
\<close>

theorem lead_surrogate_is_process_wide:
  assumes "character_family messageA" and "messageB = WM_CHAR \<or> messageB = WM_SYSCHAR"
    and "userdata m hwndA = a" and "a \<noteq> 0" and "userdata m hwndB = b" and "b \<noteq> 0"
    and "(ucast wparamA :: char32_t) AND 0xFFFFFC00 = 0xD800"
    and "(ucast wparamB :: char32_t) AND 0xFFFFFC00 = 0xDC00"
  shows "lead_surrogate (snd (snd (WndProc h hwndA messageA wparamA lparamA m))) = ucast wparamA
       \<and> lead_surrogate
           (snd (Destroy a (snd (snd (WndProc h hwndA messageA wparamA lparamA m)))))
           = ucast wparamA
       \<and> filter is_OnChar (events (fst (snd (WndProc h hwndB messageB wparamB lparamB
             (snd (snd (WndProc h hwndA messageA wparamA lparamA m))))))) =
           [OnChar (0x10000 + push_bit 10 (ucast wparamA AND 0x3FF) + (ucast wparamB AND 0x3FF))]
       \<and> Callback b
            (OnChar (0x10000 + push_bit 10 (ucast wparamA AND 0x3FF) + (ucast wparamB AND 0x3FF)))
           \<in> set (fst (snd (WndProc h hwndB messageB wparamB lparamB
                    (snd (snd (WndProc h hwndA messageA wparamA lparamA m))))))
       \<and> lead_surrogate (snd (snd (WndProc h hwndB messageB wparamB lparamB
             (snd (snd (WndProc h hwndA messageA wparamA lparamA m)))))) = 0"
proof -
  let ?m1 = "snd (case_WM_CHAR a a messageA wparamA lparamA m)"
  let ?merged = "0x10000 + push_bit 10 (ucast wparamA AND 0x3FF) + (ucast wparamB AND 0x3FF)
                   :: char32_t"
  have stepA: "WndProc h hwndA messageA wparamA lparamA m =
      (DefWindowProc hwndA messageA wparamA lparamA, case_WM_CHAR a a messageA wparamA lparamA m)"
    using assms(1,3,4) by (rule WndProc_character)
  have leadA: "lead_surrogate ?m1 = ucast wparamA"
    using assms(7) by (simp add: case_WM_CHAR_lead merge_surrogates_high)
  have nz: "(ucast wparamA :: char32_t) \<noteq> 0"
    using assms(7) by (rule high_surrogate_nonzero)
  have famB: "character_family messageB"
    using assms(2) by (auto simp add: character_family_def)
  have udB: "userdata ?m1 hwndB = b"
    using assms(5) by (simp add: case_WM_CHAR_userdata)
  have stepB: "WndProc h hwndB messageB wparamB lparamB ?m1 =
      (DefWindowProc hwndB messageB wparamB lparamB, case_WM_CHAR b b messageB wparamB lparamB ?m1)"
    using famB udB assms(6) by (rule WndProc_character)
  have msB: "merge_surrogates (ucast wparamB) (lead_surrogate ?m1) = (?merged, 0)"
    using assms(8) nz by (simp add: leadA merge_surrogates_low)
  have nb: "wparamB \<noteq> 8"
    using assms(8) by (rule low_surrogate_not_backspace)
  have evB: "filter is_OnChar (events (fst (case_WM_CHAR b b messageB wparamB lparamB ?m1))) =
      [OnChar ?merged]"
    using assms(2) nb by (auto simp add: case_WM_CHAR_events msB)
  have inB: "Callback b (OnChar ?merged) \<in> set (fst (case_WM_CHAR b b messageB wparamB lparamB ?m1))"
    using assms(2) nb by (auto simp add: case_WM_CHAR_effects msB)
  have leadB: "lead_surrogate (snd (case_WM_CHAR b b messageB wparamB lparamB ?m1)) = 0"
    using case_WM_CHAR_lead [of b b messageB wparamB lparamB ?m1]
    by (simp only: msB snd_conv)
  show ?thesis
    using leadA evB inB leadB by (simp add: stepA stepB Destroy_lead_surrogate)
qed

theorem lead_surrogate_is_process_wide_witness:
  "character_family WM_CHAR \<and> (WM_CHAR = WM_CHAR \<or> WM_CHAR = WM_SYSCHAR)
   \<and> userdata two_windows 10 = 100 \<and> (100::nat) \<noteq> 0
   \<and> userdata two_windows 20 = 200 \<and> (200::nat) \<noteq> 0
   \<and> (ucast (0xD83D :: WPARAM) :: char32_t) AND 0xFFFFFC00 = 0xD800
   \<and> (ucast (0xDE00 :: WPARAM) :: char32_t) AND 0xFFFFFC00 = 0xDC00
   \<and> lead_surrogate (snd (snd (WndProc some_host 10 WM_CHAR 0xD83D 0 two_windows))) = 0xD83D
   \<and> lead_surrogate
        (snd (Destroy 100 (snd (snd (WndProc some_host 10 WM_CHAR 0xD83D 0 two_windows)))))
       = 0xD83D
   \<and> Callback 200 (OnChar 0x1F600)
       \<in> set (fst (snd (WndProc some_host 20 WM_CHAR 0xDE00 0
                (snd (snd (WndProc some_host 10 WM_CHAR 0xD83D 0 two_windows))))))
   \<and> lead_surrogate (snd (snd (WndProc some_host 20 WM_CHAR 0xDE00 0
         (snd (snd (WndProc some_host 10 WM_CHAR 0xD83D 0 two_windows)))))) = 0"
proof -
  have a: "character_family WM_CHAR" by (simp add: character_family_def)
  have b: "WM_CHAR = WM_CHAR \<or> WM_CHAR = WM_SYSCHAR" by simp
  have c: "userdata two_windows 10 = 100" by simp
  have d: "(100::nat) \<noteq> 0" by simp
  have e: "userdata two_windows 20 = 200" by simp
  have f: "(200::nat) \<noteq> 0" by simp
  have g: "(ucast (0xD83D :: WPARAM) :: char32_t) AND 0xFFFFFC00 = 0xD800" by simp
  have i: "(ucast (0xDE00 :: WPARAM) :: char32_t) AND 0xFFFFFC00 = 0xDC00" by simp
  from lead_surrogate_is_process_wide [where h = some_host and lparamA = 0 and lparamB = 0,
      OF a b c d e f g i] a c e
  show ?thesis by simp
qed

subsection \<open>The key case\<close>

lemma WndProc_keydown_character_key:
  assumes "userdata m hwnd = w" and "w \<noteq> 0"
    and "message = WM_KEYDOWN \<or> message = WM_SYSKEYDOWN"
    and "0 < MapVirtualKey h (ucast wparam) MAPVK_VK_TO_CHAR"
  shows "WndProc h hwnd message wparam lparam m =
           (DefWindowProc hwnd message wparam lparam, [],
            update_object w (\<lambda>x. x\<lparr>keycode_for_char_message := ucast wparam\<rparr>) m)"
  using assms
  by (auto simp add: WndProc_def GetThisFromHandle_def MessageHandler_def case_WM_KEY_def)

lemma WndProc_keydown_other_key:
  assumes "userdata m hwnd = w" and "w \<noteq> 0"
    and "message = WM_KEYDOWN \<or> message = WM_SYSKEYDOWN"
    and "MapVirtualKey h (ucast wparam) MAPVK_VK_TO_CHAR = 0"
  shows "WndProc h hwnd message wparam lparam m =
           (DefWindowProc hwnd message wparam lparam,
            [Callback w
               (OnKey (if (ucast wparam :: UINT) = VK_SHIFT \<or> (ucast wparam :: UINT) = VK_MENU
                          \<or> (ucast wparam :: UINT) = VK_CONTROL
                       then MapVirtualKey h (scancode_of lparam) MAPVK_VSC_TO_VK_EX
                       else ucast wparam)
                  (scancode_of lparam) WM_KEYDOWN 0)],
            m)"
  using assms
  by (auto simp add: WndProc_def GetThisFromHandle_def MessageHandler_def case_WM_KEY_def Let_def)

lemma some_host_MapVirtualKey [simp]:
  "MapVirtualKey some_host code kind =
     (if kind = MAPVK_VK_TO_CHAR \<and> 0x30 \<le> code \<and> code \<le> 0x5A then code else 0)"
  by (simp add: some_host_def)


text \<open>
  C4. A key-down or system-key-down message whose virtual key the host maps to a character
  emits nothing and records the key code; the character message that follows emits exactly
  one \<^verbatim>\<open>OnKey\<close>, with the recorded key code, the scancode taken from the character
  message, the key-down action and the resolved code point, and clears the record. A key-down
  of a key that the host maps to no character emits exactly one \<^verbatim>\<open>OnKey\<close> at once, with
  no character. The key code is a virtual-key code, which is not zero. The resolved code point
  is the one the surrogate step leaves: a high surrogate as it is, a low surrogate merged with
  a pending lead into the supplementary-plane value, and any other code point, or a low
  surrogate with no lead pending, as it is.
\<close>

theorem key_down_correlated_with_character:
  assumes "userdata m hwnd = w" and "w \<noteq> 0"
    and "message = WM_KEYDOWN \<or> message = WM_SYSKEYDOWN"
  shows "(0 < MapVirtualKey h (ucast wparam) MAPVK_VK_TO_CHAR \<and> (ucast wparam :: UINT) \<noteq> 0
            \<and> character_family message' \<longrightarrow>
          fst (snd (WndProc h hwnd message wparam lparam m)) = []
          \<and> keycode_for_char_message
              (objects (snd (snd (WndProc h hwnd message wparam lparam m))) w) = ucast wparam
          \<and> filter is_OnKey (events (fst (snd (deliver h
                [(hwnd, message, wparam, lparam), (hwnd, message', wparam', lparam')] m)))) =
              [OnKey (ucast wparam) (scancode_of lparam') WM_KEYDOWN
                 (if (ucast wparam' :: char32_t) AND 0xFFFFFC00 = 0xD800 then ucast wparam'
                  else if lead_surrogate m \<noteq> 0
                          \<and> (ucast wparam' :: char32_t) AND 0xFFFFFC00 = 0xDC00
                  then 0x10000 + push_bit 10 (lead_surrogate m AND 0x3FF)
                         + (ucast wparam' AND 0x3FF)
                  else ucast wparam')]
          \<and> keycode_for_char_message (objects (snd (snd (deliver h
                [(hwnd, message, wparam, lparam), (hwnd, message', wparam', lparam')] m))) w) = 0)
       \<and> (MapVirtualKey h (ucast wparam) MAPVK_VK_TO_CHAR = 0 \<longrightarrow>
          events (fst (snd (WndProc h hwnd message wparam lparam m))) =
            [OnKey (if (ucast wparam :: UINT) = VK_SHIFT \<or> (ucast wparam :: UINT) = VK_MENU
                       \<or> (ucast wparam :: UINT) = VK_CONTROL
                    then MapVirtualKey h (scancode_of lparam) MAPVK_VSC_TO_VK_EX
                    else ucast wparam)
               (scancode_of lparam) WM_KEYDOWN 0]
          \<and> snd (snd (WndProc h hwnd message wparam lparam m)) = m)"
proof (intro conjI impI)
  assume b: "MapVirtualKey h (ucast wparam) MAPVK_VK_TO_CHAR = 0"
  note step = WndProc_keydown_other_key [OF assms b, of lparam]
  show "events (fst (snd (WndProc h hwnd message wparam lparam m))) =
            [OnKey (if (ucast wparam :: UINT) = VK_SHIFT \<or> (ucast wparam :: UINT) = VK_MENU
                       \<or> (ucast wparam :: UINT) = VK_CONTROL
                    then MapVirtualKey h (scancode_of lparam) MAPVK_VSC_TO_VK_EX
                    else ucast wparam)
               (scancode_of lparam) WM_KEYDOWN 0]"
    by (simp only: step fst_conv snd_conv events.simps)
  show "snd (snd (WndProc h hwnd message wparam lparam m)) = m"
    by (simp only: step snd_conv)
next
  assume a: "0 < MapVirtualKey h (ucast wparam) MAPVK_VK_TO_CHAR \<and> (ucast wparam :: UINT) \<noteq> 0
            \<and> character_family message'"
  let ?m1 = "update_object w (\<lambda>x. x\<lparr>keycode_for_char_message := ucast wparam\<rparr>) m"
  from a have pos: "0 < MapVirtualKey h (ucast wparam) MAPVK_VK_TO_CHAR"
    and nz: "(ucast wparam :: UINT) \<noteq> 0" and fam: "character_family message'"
    by simp_all
  note step1 = WndProc_keydown_character_key [OF assms pos, of lparam]
  have ud: "userdata ?m1 hwnd = w" using assms(1) by simp
  note step2 = WndProc_character [OF fam ud assms(2), of h wparam' lparam']
  have kc: "keycode_for_char_message (objects ?m1 w) = ucast wparam" by simp
  have both: "deliver h [(hwnd, message, wparam, lparam), (hwnd, message', wparam', lparam')] m =
      (True, fst (case_WM_CHAR w w message' wparam' lparam' ?m1),
       snd (case_WM_CHAR w w message' wparam' lparam' ?m1))"
    by (simp add: step1 step2 split: prod.split)
  show "fst (snd (WndProc h hwnd message wparam lparam m)) = []"
    by (simp only: step1 fst_conv snd_conv)
  show "keycode_for_char_message
          (objects (snd (snd (WndProc h hwnd message wparam lparam m))) w) = ucast wparam"
    by (simp only: step1 snd_conv kc)
  show "filter is_OnKey (events (fst (snd (deliver h
          [(hwnd, message, wparam, lparam), (hwnd, message', wparam', lparam')] m)))) =
        [OnKey (ucast wparam) (scancode_of lparam') WM_KEYDOWN
           (if (ucast wparam' :: char32_t) AND 0xFFFFFC00 = 0xD800 then ucast wparam'
            else if lead_surrogate m \<noteq> 0
                    \<and> (ucast wparam' :: char32_t) AND 0xFFFFFC00 = 0xDC00
            then 0x10000 + push_bit 10 (lead_surrogate m AND 0x3FF)
                   + (ucast wparam' AND 0x3FF)
            else ucast wparam')]"
    unfolding both using nz by (simp add: case_WM_CHAR_events merge_surrogates_def)
  show "keycode_for_char_message (objects (snd (snd (deliver h
          [(hwnd, message, wparam, lparam), (hwnd, message', wparam', lparam')] m))) w) = 0"
    by (simp only: both snd_conv case_WM_CHAR_keycode)
qed


theorem key_down_correlated_with_character_witness:
  "userdata two_windows 10 = 100 \<and> (100::nat) \<noteq> 0
   \<and> userdata (two_windows\<lparr>lead_surrogate := 0xD83D\<rparr>) 10 = 100
   \<and> (WM_KEYDOWN = WM_KEYDOWN \<or> WM_KEYDOWN = WM_SYSKEYDOWN)
   \<and> 0 < MapVirtualKey some_host (ucast (0x41 :: WPARAM)) MAPVK_VK_TO_CHAR
   \<and> (ucast (0x41 :: WPARAM) :: UINT) \<noteq> 0 \<and> character_family WM_CHAR
   \<and> MapVirtualKey some_host (ucast (0x25 :: WPARAM)) MAPVK_VK_TO_CHAR = 0
   \<and> fst (snd (WndProc some_host 10 WM_KEYDOWN 0x41 0x1E0001 two_windows)) = []
   \<and> filter is_OnKey (events (fst (snd (deliver some_host
         [(10, WM_KEYDOWN, 0x41, 0x1E0001), (10, WM_CHAR, 0x61, 0x1E0001)] two_windows)))) =
       [OnKey 0x41 0x1E WM_KEYDOWN 0x61]
   \<and> keycode_for_char_message (objects (snd (snd (deliver some_host
         [(10, WM_KEYDOWN, 0x41, 0x1E0001), (10, WM_CHAR, 0x61, 0x1E0001)] two_windows))) 100) = 0
   \<and> filter is_OnKey (events (fst (snd (deliver some_host
         [(10, WM_KEYDOWN, 0x41, 0x1E0001), (10, WM_CHAR, 0xD83D, 0x1E0001)] two_windows)))) =
       [OnKey 0x41 0x1E WM_KEYDOWN 0xD83D]
   \<and> filter is_OnKey (events (fst (snd (deliver some_host
         [(10, WM_KEYDOWN, 0x41, 0x1E0001), (10, WM_CHAR, 0xDE00, 0x1E0001)]
         (two_windows\<lparr>lead_surrogate := 0xD83D\<rparr>))))) =
       [OnKey 0x41 0x1E WM_KEYDOWN 0x1F600]
   \<and> events (fst (snd (WndProc some_host 10 WM_KEYDOWN 0x25 0x14B0001 two_windows))) =
       [OnKey 0x25 0x4B WM_KEYDOWN 0]"
proof -
  let ?lead = "two_windows\<lparr>lead_surrogate := 0xD83D\<rparr>"
  have a: "userdata two_windows 10 = 100" by simp
  have a': "userdata ?lead 10 = 100" by (simp add: two_windows_def)
  have b: "(100::nat) \<noteq> 0" by simp
  have c: "WM_KEYDOWN = WM_KEYDOWN \<or> WM_KEYDOWN = WM_SYSKEYDOWN" by simp
  have d: "0 < MapVirtualKey some_host (ucast (0x41 :: WPARAM)) MAPVK_VK_TO_CHAR" by simp
  have e: "(ucast (0x41 :: WPARAM) :: UINT) \<noteq> 0" by simp
  have f: "character_family WM_CHAR" by (simp add: character_family_def)
  have g: "MapVirtualKey some_host (ucast (0x25 :: WPARAM)) MAPVK_VK_TO_CHAR = 0" by simp
  have sc: "scancode_of 0x1E0001 = 0x1E" "scancode_of 0x14B0001 = 0x4B"
    by (simp_all add: scancode_of_def)
  note letter = key_down_correlated_with_character [where h = some_host and wparam = "0x41"
      and lparam = "0x1E0001" and message' = WM_CHAR and wparam' = "0x61"
      and lparam' = "0x1E0001", OF a b c, THEN conjunct1, rule_format, OF conjI [OF d conjI [OF e f]]]
  note lead = key_down_correlated_with_character [where h = some_host and wparam = "0x41"
      and lparam = "0x1E0001" and message' = WM_CHAR and wparam' = "0xD83D"
      and lparam' = "0x1E0001", OF a b c, THEN conjunct1, rule_format, OF conjI [OF d conjI [OF e f]]]
  note trail = key_down_correlated_with_character [where h = some_host and wparam = "0x41"
      and lparam = "0x1E0001" and message' = WM_CHAR and wparam' = "0xDE00"
      and lparam' = "0x1E0001", OF a' b c, THEN conjunct1, rule_format, OF conjI [OF d conjI [OF e f]]]
  note other_key = key_down_correlated_with_character [where h = some_host and wparam = "0x25"
      and lparam = "0x14B0001", OF a b c, THEN conjunct2, rule_format, OF g]
  have l1: "filter is_OnKey (events (fst (snd (deliver some_host
         [(10, WM_KEYDOWN, 0x41, 0x1E0001), (10, WM_CHAR, 0x61, 0x1E0001)] two_windows)))) =
       [OnKey 0x41 0x1E WM_KEYDOWN 0x61]"
    using letter by (simp add: sc)
  have l2: "filter is_OnKey (events (fst (snd (deliver some_host
         [(10, WM_KEYDOWN, 0x41, 0x1E0001), (10, WM_CHAR, 0xD83D, 0x1E0001)] two_windows)))) =
       [OnKey 0x41 0x1E WM_KEYDOWN 0xD83D]"
    using lead by (simp add: sc)
  have l3: "filter is_OnKey (events (fst (snd (deliver some_host
         [(10, WM_KEYDOWN, 0x41, 0x1E0001), (10, WM_CHAR, 0xDE00, 0x1E0001)] ?lead)))) =
       [OnKey 0x41 0x1E WM_KEYDOWN 0x1F600]"
    using trail by (simp add: sc)
  from letter other_key a a' d e f g l1 l2 l3 show ?thesis
    by (simp add: sc)
qed

subsection \<open>The leave-tracking state machine\<close>

lemma WndProc_move:
  assumes "userdata m hwnd = w" and "w \<noteq> 0"
  shows "WndProc h hwnd WM_MOUSEMOVE wparam lparam m =
           (DefWindowProc hwnd WM_MOUSEMOVE wparam lparam,
            (if tracking_mouse_leave (objects m w) then [] else [Native (TrackMouseEvent hwnd)])
            @ [Callback w (OnPointerMove (GET_X_LPARAM lparam) (GET_Y_LPARAM lparam))],
            if tracking_mouse_leave (objects m w) then m
            else update_object w (\<lambda>x. x\<lparr>tracking_mouse_leave := True\<rparr>) m)"
  using assms
  by (simp add: WndProc_def GetThisFromHandle_def MessageHandler_def case_WM_MOUSEMOVE_def
      TrackMouseLeaveEvent_def)

lemma WndProc_leave:
  assumes "userdata m hwnd = w" and "w \<noteq> 0"
  shows "WndProc h hwnd WM_MOUSELEAVE wparam lparam m =
           (DefWindowProc hwnd WM_MOUSELEAVE wparam lparam, [Callback w OnPointerLeave],
            update_object w (\<lambda>x. x\<lparr>tracking_mouse_leave := False\<rparr>) m)"
  using assms
  by (simp add: WndProc_def GetThisFromHandle_def MessageHandler_def case_WM_MOUSELEAVE_def)

lemma deliver_pointer_moves:
  assumes "userdata m hwnd = w" and "w \<noteq> 0"
  shows "\<exists>m1. deliver h (pointer_moves hwnd ps @ rest) m =
           (let (ok, es, m2) = deliver h rest m1
            in (ok,
                (if ps \<noteq> [] \<and> \<not> tracking_mouse_leave (objects m w)
                 then [Native (TrackMouseEvent hwnd)] else [])
                @ map (\<lambda>(wparam, lparam).
                         Callback w (OnPointerMove (GET_X_LPARAM lparam) (GET_Y_LPARAM lparam))) ps
                @ es, m2))
         \<and> userdata m1 = userdata m
         \<and> tracking_mouse_leave (objects m1 w) = (ps \<noteq> [] \<or> tracking_mouse_leave (objects m w))"
  using assms
proof (induction ps arbitrary: m)
  case Nil
  show ?case by (rule exI [of _ m]) (simp add: pointer_moves_def split: prod.split)
next
  case (Cons p ps)
  obtain wparam lparam where p: "p = (wparam, lparam)" by (cases p)
  let ?m' = "if tracking_mouse_leave (objects m w) then m
             else update_object w (\<lambda>x. x\<lparr>tracking_mouse_leave := True\<rparr>) m"
  have ud: "userdata ?m' hwnd = w" using Cons.prems(1) by simp
  have tr: "tracking_mouse_leave (objects ?m' w)" by simp
  from Cons.IH [OF ud Cons.prems(2)] obtain m1 where
    run: "deliver h (pointer_moves hwnd ps @ rest) ?m' =
           (let (ok, es, m2) = deliver h rest m1
            in (ok,
                (if ps \<noteq> [] \<and> \<not> tracking_mouse_leave (objects ?m' w)
                 then [Native (TrackMouseEvent hwnd)] else [])
                @ map (\<lambda>(wparam, lparam).
                         Callback w (OnPointerMove (GET_X_LPARAM lparam) (GET_Y_LPARAM lparam))) ps
                @ es, m2))"
    and ud1: "userdata m1 = userdata ?m'"
    and tr1: "tracking_mouse_leave (objects m1 w) = (ps \<noteq> [] \<or> tracking_mouse_leave (objects ?m' w))"
    by blast
  have step: "deliver h (pointer_moves hwnd (p # ps) @ rest) m =
      (let (ok, es', m2) = deliver h (pointer_moves hwnd ps @ rest) ?m'
       in (ok, ((if tracking_mouse_leave (objects m w) then [] else [Native (TrackMouseEvent hwnd)])
            @ [Callback w (OnPointerMove (GET_X_LPARAM lparam) (GET_Y_LPARAM lparam))]) @ es', m2))"
    unfolding p pointer_moves_def
    by (simp add: WndProc_move [OF Cons.prems, unfolded WM_MOUSEMOVE_def] pointer_moves_def
        split del: if_split)
  show ?case
  proof (rule exI [of _ m1], intro conjI)
    show "deliver h (pointer_moves hwnd (p # ps) @ rest) m =
           (let (ok, es, m2) = deliver h rest m1
            in (ok,
                (if p # ps \<noteq> [] \<and> \<not> tracking_mouse_leave (objects m w)
                 then [Native (TrackMouseEvent hwnd)] else [])
                @ map (\<lambda>(wparam, lparam).
                         Callback w (OnPointerMove (GET_X_LPARAM lparam) (GET_Y_LPARAM lparam)))
                    (p # ps)
                @ es, m2))"
      unfolding step run using tr by (simp add: p split: prod.split)
    show "userdata m1 = userdata m" using ud1 by simp
    show "tracking_mouse_leave (objects m1 w) = (p # ps \<noteq> [] \<or> tracking_mouse_leave (objects m w))"
      using tr1 tr by simp
  qed
qed


lemma events_append: "events (xs @ ys) = events xs @ events ys"
  by (induction xs rule: events.induct) simp_all

lemma events_moves:
  "events (map (\<lambda>(wparam, lparam).
             Callback w (OnPointerMove (GET_X_LPARAM lparam) (GET_Y_LPARAM lparam))) ps) =
   map (\<lambda>(wparam, lparam). OnPointerMove (GET_X_LPARAM lparam) (GET_Y_LPARAM lparam)) ps"
  by (induction ps) (simp_all split: prod.split)

lemma filter_native_moves:
  "filter (\<lambda>e. e = Native n)
     (map (\<lambda>(wparam, lparam).
             Callback w (OnPointerMove (GET_X_LPARAM lparam) (GET_Y_LPARAM lparam))) ps) = []"
  by (induction ps) (simp_all split: prod.split)

lemma filter_leave_moves:
  "filter (\<lambda>c. c = OnPointerLeave)
     (map (\<lambda>(wparam, lparam). OnPointerMove (GET_X_LPARAM lparam) (GET_Y_LPARAM lparam)) ps) = []"
  by (induction ps) (simp_all split: prod.split)

lemma moves_then_leave:
  assumes "userdata m hwnd = w" and "w \<noteq> 0"
  shows "\<exists>m1. deliver h (pointer_moves hwnd ps @ [(hwnd, WM_MOUSELEAVE, wparam, lparam)]) m =
           (True,
            (if ps \<noteq> [] \<and> \<not> tracking_mouse_leave (objects m w)
             then [Native (TrackMouseEvent hwnd)] else [])
            @ map (\<lambda>(wparam, lparam).
                     Callback w (OnPointerMove (GET_X_LPARAM lparam) (GET_Y_LPARAM lparam))) ps
            @ [Callback w OnPointerLeave],
            update_object w (\<lambda>x. x\<lparr>tracking_mouse_leave := False\<rparr>) m1)
         \<and> userdata m1 = userdata m"
proof -
  from deliver_pointer_moves [OF assms, of h ps "[(hwnd, WM_MOUSELEAVE, wparam, lparam)]"]
  obtain m1 where
    run: "deliver h (pointer_moves hwnd ps @ [(hwnd, WM_MOUSELEAVE, wparam, lparam)]) m =
           (let (ok, es, m2) = deliver h [(hwnd, WM_MOUSELEAVE, wparam, lparam)] m1
            in (ok,
                (if ps \<noteq> [] \<and> \<not> tracking_mouse_leave (objects m w)
                 then [Native (TrackMouseEvent hwnd)] else [])
                @ map (\<lambda>(wparam, lparam).
                         Callback w (OnPointerMove (GET_X_LPARAM lparam) (GET_Y_LPARAM lparam))) ps
                @ es, m2))"
    and ud1: "userdata m1 = userdata m"
    by blast
  have ud: "userdata m1 hwnd = w" using ud1 assms(1) by simp
  have leave: "deliver h [(hwnd, WM_MOUSELEAVE, wparam, lparam)] m1 =
      (True, [Callback w OnPointerLeave],
       update_object w (\<lambda>x. x\<lparr>tracking_mouse_leave := False\<rparr>) m1)"
    by (simp add: WndProc_leave [OF ud assms(2), unfolded WM_MOUSELEAVE_def])
  show ?thesis
  proof (rule exI [of _ m1], rule conjI)
    show "deliver h (pointer_moves hwnd ps @ [(hwnd, WM_MOUSELEAVE, wparam, lparam)]) m =
           (True,
            (if ps \<noteq> [] \<and> \<not> tracking_mouse_leave (objects m w)
             then [Native (TrackMouseEvent hwnd)] else [])
            @ map (\<lambda>(wparam, lparam).
                     Callback w (OnPointerMove (GET_X_LPARAM lparam) (GET_Y_LPARAM lparam))) ps
            @ [Callback w OnPointerLeave],
            update_object w (\<lambda>x. x\<lparr>tracking_mouse_leave := False\<rparr>) m1)"
      unfolding run leave by simp
    show "userdata m1 = userdata m" by (rule ud1)
  qed
qed


text \<open>
  C6. The leave-tracking flag is a two-state machine over the messages of a window. A
  pointer-move message arms tracking (one \<^verbatim>\<open>TrackMouseEvent\<close> call) when the flag is off
  and only reports the move when it is on; a mouse-leave message calls \<^verbatim>\<open>OnPointerLeave\<close>
  and turns the flag off. So any run of move messages followed by one leave message calls
  \<^verbatim>\<open>OnPointerLeave\<close> exactly once and \<^verbatim>\<open>TrackMouseEvent\<close> at most once, and a move
  after the leave arms tracking again.
\<close>

theorem leave_tracking_state_machine:
  assumes "userdata m hwnd = w" and "w \<noteq> 0"
  shows "fst (snd (WndProc h hwnd WM_MOUSEMOVE wparam lparam m)) =
           (if tracking_mouse_leave (objects m w) then [] else [Native (TrackMouseEvent hwnd)])
           @ [Callback w (OnPointerMove (GET_X_LPARAM lparam) (GET_Y_LPARAM lparam))]
       \<and> tracking_mouse_leave (objects (snd (snd (WndProc h hwnd WM_MOUSEMOVE wparam lparam m))) w)
       \<and> fst (snd (WndProc h hwnd WM_MOUSELEAVE wparam lparam m)) = [Callback w OnPointerLeave]
       \<and> \<not> tracking_mouse_leave
             (objects (snd (snd (WndProc h hwnd WM_MOUSELEAVE wparam lparam m))) w)
       \<and> fst (deliver h (pointer_moves hwnd ps @ [(hwnd, WM_MOUSELEAVE, wparam', lparam')]) m)
       \<and> events (fst (snd (deliver h
             (pointer_moves hwnd ps @ [(hwnd, WM_MOUSELEAVE, wparam', lparam')]) m))) =
           map (\<lambda>(wparam, lparam). OnPointerMove (GET_X_LPARAM lparam) (GET_Y_LPARAM lparam)) ps
           @ [OnPointerLeave]
       \<and> filter (\<lambda>c. c = OnPointerLeave) (events (fst (snd (deliver h
             (pointer_moves hwnd ps @ [(hwnd, WM_MOUSELEAVE, wparam', lparam')]) m)))) =
           [OnPointerLeave]
       \<and> filter (\<lambda>e. e = Native (TrackMouseEvent hwnd)) (fst (snd (deliver h
             (pointer_moves hwnd ps @ [(hwnd, WM_MOUSELEAVE, wparam', lparam')]) m))) =
           (if ps \<noteq> [] \<and> \<not> tracking_mouse_leave (objects m w)
            then [Native (TrackMouseEvent hwnd)] else [])
       \<and> \<not> tracking_mouse_leave (objects (snd (snd (deliver h
             (pointer_moves hwnd ps @ [(hwnd, WM_MOUSELEAVE, wparam', lparam')]) m))) w)
       \<and> fst (snd (WndProc h hwnd WM_MOUSEMOVE wparam lparam (snd (snd (deliver h
             (pointer_moves hwnd ps @ [(hwnd, WM_MOUSELEAVE, wparam', lparam')]) m))))) =
           [Native (TrackMouseEvent hwnd),
            Callback w (OnPointerMove (GET_X_LPARAM lparam) (GET_Y_LPARAM lparam))]
       \<and> tracking_mouse_leave (objects (snd (snd (WndProc h hwnd WM_MOUSEMOVE wparam lparam
             (snd (snd (deliver h
                (pointer_moves hwnd ps @ [(hwnd, WM_MOUSELEAVE, wparam', lparam')]) m)))))) w)"
proof -
  from moves_then_leave [OF assms, of h ps wparam' lparam'] obtain m1 where
    run: "deliver h (pointer_moves hwnd ps @ [(hwnd, WM_MOUSELEAVE, wparam', lparam')]) m =
           (True,
            (if ps \<noteq> [] \<and> \<not> tracking_mouse_leave (objects m w)
             then [Native (TrackMouseEvent hwnd)] else [])
            @ map (\<lambda>(wparam, lparam).
                     Callback w (OnPointerMove (GET_X_LPARAM lparam) (GET_Y_LPARAM lparam))) ps
            @ [Callback w OnPointerLeave],
            update_object w (\<lambda>x. x\<lparr>tracking_mouse_leave := False\<rparr>) m1)"
    and ud1: "userdata m1 = userdata m"
    by blast
  let ?m2 = "update_object w (\<lambda>x. x\<lparr>tracking_mouse_leave := False\<rparr>) m1"
  have ud2: "userdata ?m2 hwnd = w" using ud1 assms(1) by simp
  have off: "\<not> tracking_mouse_leave (objects ?m2 w)" by simp
  note move = WndProc_move [OF assms, of h wparam lparam]
  note leave = WndProc_leave [OF assms, of h wparam lparam]
  note again = WndProc_move [OF ud2 assms(2), of h wparam lparam]
  show ?thesis
    unfolding run fst_conv snd_conv move leave again
    using off
    by (simp add: events_append events_moves filter_native_moves filter_leave_moves)
qed


theorem leave_tracking_state_machine_witness:
  "userdata two_windows 10 = 100 \<and> (100::nat) \<noteq> 0
   \<and> \<not> tracking_mouse_leave (objects two_windows 100)
   \<and> fst (snd (WndProc some_host 10 WM_MOUSEMOVE 0 0x320064 two_windows)) =
       [Native (TrackMouseEvent 10), Callback 100 (OnPointerMove 100 50)]
   \<and> events (fst (snd (deliver some_host
         (pointer_moves 10 [(0, 0x320064), (0, 0x330065)] @ [(10, WM_MOUSELEAVE, 0, 0)])
         two_windows))) = [OnPointerMove 100 50, OnPointerMove 101 51, OnPointerLeave]
   \<and> filter (\<lambda>e. e = Native (TrackMouseEvent 10)) (fst (snd (deliver some_host
         (pointer_moves 10 [(0, 0x320064), (0, 0x330065)] @ [(10, WM_MOUSELEAVE, 0, 0)])
         two_windows))) = [Native (TrackMouseEvent 10)]
   \<and> \<not> tracking_mouse_leave (objects (snd (snd (deliver some_host
         (pointer_moves 10 [(0, 0x320064), (0, 0x330065)] @ [(10, WM_MOUSELEAVE, 0, 0)])
         two_windows))) 100)"
proof -
  have a: "userdata two_windows 10 = 100" by simp
  have b: "(100::nat) \<noteq> 0" by simp
  have c: "\<not> tracking_mouse_leave (objects two_windows 100)" by (simp add: fresh_window_def)
  have x: "GET_X_LPARAM 0x320064 = 100" "GET_Y_LPARAM 0x320064 = 50"
    "GET_X_LPARAM 0x330065 = 101" "GET_Y_LPARAM 0x330065 = 51"
    by (simp_all add: GET_X_LPARAM_def GET_Y_LPARAM_def LOWORD_def HIWORD_def)
  note inst = leave_tracking_state_machine [where h = some_host and wparam = 0
      and lparam = "0x320064" and ps = "[(0, 0x320064), (0, 0x330065)]"
      and wparam' = 0 and lparam' = 0, OF a b]
  have e1: "fst (snd (WndProc some_host 10 WM_MOUSEMOVE 0 0x320064 two_windows)) =
       [Native (TrackMouseEvent 10), Callback 100 (OnPointerMove 100 50)]"
    using inst [THEN conjunct1] c by (simp only: x if_False append.simps)
  have e2: "events (fst (snd (deliver some_host
         (pointer_moves 10 [(0, 0x320064), (0, 0x330065)] @ [(10, WM_MOUSELEAVE, 0, 0)])
         two_windows))) = [OnPointerMove 100 50, OnPointerMove 101 51, OnPointerLeave]"
    using inst [THEN conjunct2, THEN conjunct2, THEN conjunct2, THEN conjunct2, THEN conjunct2,
        THEN conjunct1]
    by (simp only: x list.map prod.case append.simps)
  have e3: "filter (\<lambda>e. e = Native (TrackMouseEvent 10)) (fst (snd (deliver some_host
         (pointer_moves 10 [(0, 0x320064), (0, 0x330065)] @ [(10, WM_MOUSELEAVE, 0, 0)])
         two_windows))) = [Native (TrackMouseEvent 10)]"
    using inst [THEN conjunct2, THEN conjunct2, THEN conjunct2, THEN conjunct2, THEN conjunct2,
        THEN conjunct2, THEN conjunct2, THEN conjunct1] c
    by (simp only: list.distinct not_False_eq_True simp_thms if_True)
  have e4: "\<not> tracking_mouse_leave (objects (snd (snd (deliver some_host
         (pointer_moves 10 [(0, 0x320064), (0, 0x330065)] @ [(10, WM_MOUSELEAVE, 0, 0)])
         two_windows))) 100)"
    using inst [THEN conjunct2, THEN conjunct2, THEN conjunct2, THEN conjunct2, THEN conjunct2,
        THEN conjunct2, THEN conjunct2, THEN conjunct2, THEN conjunct1] .
  from a b c e1 e2 e3 e4 show ?thesis by (intro conjI)
qed

subsection \<open>Initialisation\<close>

lemma Destroy_effects:
  "fst (Destroy this m) =
     (if window_handle (objects m this) \<noteq> 0
      then [Native (DestroyWindow (window_handle (objects m this)))] else [])
     @ [Native (UnregisterClass (c_str (window_class_name (objects m this))))]"
  by (simp add: Destroy_def Let_def)

lemma Destroy_window_handle: "window_handle (objects (snd (Destroy this m)) this) = 0"
  by (simp add: Destroy_def Let_def)

lemma Destroy_userdata:
  "userdata (snd (Destroy this m)) hw =
     (if window_handle (objects m this) \<noteq> 0 \<and> hw = window_handle (objects m this) then 0
      else userdata m hw)"
  by (simp add: Destroy_def Let_def)

lemma InitializeChild_begin_eq:
  "InitializeChild_begin h this title m =
     (c_str (NarrowToWide h title),
      fst (Destroy this m) @ [Native (RegisterClass (c_str (NarrowToWide h title)))],
      update_object this (\<lambda>w. w\<lparr>window_class_name := NarrowToWide h title\<rparr>)
        (snd (Destroy this m)))"
  by (simp add: InitializeChild_begin_def RegisterWindowClass_def Let_def split: prod.split)

lemma InitializeChild_state:
  "snd (snd (InitializeChild h c this title width height m)) =
     snd (snd (host_CreateWindowEx h c this (snd (snd (InitializeChild_begin h this title m)))))"
  by (simp add: InitializeChild_def Let_def split: prod.split)

lemma InitializeChild_effects:
  "\<exists>rest. fst (snd (InitializeChild h c this title width height m)) =
     fst (snd (InitializeChild_begin h this title m))
     @ [Native (CreateWindowEx (c_str (NarrowToWide h title)) (c_str (NarrowToWide h title))
                 width height this)]
     @ rest"
  by (simp add: InitializeChild_def InitializeChild_begin_eq Let_def split: prod.split)

lemma deliver_unattached:
  assumes "userdata m hw = 0" and "\<forall>x\<in>set msgs. fst x \<noteq> WM_NCCREATE"
  shows "deliver h (map (\<lambda>(message, wparam, lparam). (hw, message, wparam, lparam)) msgs @ rest) m
         = deliver h rest m"
  using assms
proof (induction msgs)
  case Nil
  show ?case by simp
next
  case (Cons x msgs)
  obtain message wparam lparam where x: "x = (message, wparam, lparam)" by (cases x)
  from Cons.prems(2) have ne: "message \<noteq> WM_NCCREATE" by (simp add: x)
  have step: "WndProc h hw message wparam lparam m =
      (DefWindowProc hw message wparam lparam, [], m)"
    using Cons.prems(1) ne by (simp add: WndProc_def GetThisFromHandle_def)
  from Cons.prems(2) have rest: "\<forall>x\<in>set msgs. fst x \<noteq> WM_NCCREATE" by simp
  show ?case
    using Cons.IH [OF Cons.prems(1) rest] by (simp add: x step split: prod.split)
qed


lemma creation_before_WM_NCCREATE:
  assumes "userdata m2 (new_window c) = 0" and "\<forall>x\<in>set pre. fst x \<noteq> WM_NCCREATE"
  shows "host_CreateWindowEx h (c\<lparr>creation_messages := pre\<rparr>) this m2 =
           (True, [], m2\<lparr>lpCreateParams := (lpCreateParams m2)(create_struct c := this)\<rparr>)"
proof -
  let ?m = "m2\<lparr>lpCreateParams := (lpCreateParams m2)(create_struct c := this)\<rparr>"
  have ud: "userdata ?m (new_window c) = 0" using assms(1) by simp
  from deliver_unattached [OF ud assms(2), of h "[]"]
  show ?thesis by (simp add: host_CreateWindowEx_def creation_stream_def)
qed

lemma creation_at_WM_NCCREATE:
  assumes "this \<noteq> 0" and "userdata m2 (new_window c) = 0"
    and "\<forall>x\<in>set pre. fst x \<noteq> WM_NCCREATE"
  shows "host_CreateWindowEx h
           (c\<lparr>creation_messages := pre @ [(WM_NCCREATE, wparam, create_struct c)]\<rparr>) this m2 =
         (True, [Native (SetWindowLongPtr (new_window c) this)],
          update_object this (\<lambda>w. w\<lparr>window_handle := new_window c\<rparr>)
            (m2\<lparr>lpCreateParams := (lpCreateParams m2)(create_struct c := this),
                userdata := (userdata m2)(new_window c := this)\<rparr>))"
proof -
  let ?m = "m2\<lparr>lpCreateParams := (lpCreateParams m2)(create_struct c := this)\<rparr>"
  have ud: "userdata ?m (new_window c) = 0" using assms(2) by simp
  from deliver_unattached [OF ud assms(3), of h
      "[(new_window c, WM_NCCREATE, wparam, create_struct c)]"] assms(1)
  show ?thesis by (simp add: host_CreateWindowEx_def creation_stream_def WndProc_def)
qed

lemma NarrowToWide_w: "NarrowToWide some_host ''w'' = [119]"
  by (simp add: NarrowToWide_def some_host_def)

lemma c_str_examples: "c_str [] = []" "c_str [119] = [119]"
  by (simp_all add: c_str_def)


text \<open>
  C10. \<^verbatim>\<open>InitializeChild\<close> runs the whole of \<^verbatim>\<open>Destroy\<close> before it registers the class and
  asks the host for a new window: a window that owns a handle has it destroyed and cleared
  first, so the object never stores a second handle beside a live one. The stored handle is
  null when \<^verbatim>\<open>CreateWindowEx\<close> is called and stays null while the host sends the messages
  that precede \<^verbatim>\<open>WM_NCCREATE\<close>; that message records the new handle in the object and
  the object in the user-data slot of the handle.
\<close>

theorem InitializeChild_destroys_before_creating:
  assumes "this \<noteq> 0" and "new_window c \<noteq> 0"
    and "userdata m (new_window c) = 0 \<or> new_window c = window_handle (objects m this)"
    and "\<forall>x\<in>set pre. fst x \<noteq> WM_NCCREATE"
  shows "(\<exists>rest. fst (snd (InitializeChild h c this title width height m)) =
            ((if window_handle (objects m this) \<noteq> 0
              then [Native (DestroyWindow (window_handle (objects m this)))] else [])
             @ [Native (UnregisterClass (c_str (window_class_name (objects m this))))])
            @ [Native (RegisterClass (c_str (NarrowToWide h title))),
               Native (CreateWindowEx (c_str (NarrowToWide h title)) (c_str (NarrowToWide h title))
                         width height this)]
            @ rest)
       \<and> fst (snd (InitializeChild_begin h this title m)) =
            fst (Destroy this m) @ [Native (RegisterClass (c_str (NarrowToWide h title)))]
       \<and> window_handle (objects (snd (snd (InitializeChild_begin h this title m))) this) = 0
       \<and> (\<forall>n. window_handle (objects (snd (snd (InitializeChild h
              (c\<lparr>creation_messages := take n pre\<rparr>) this title width height m))) this) = 0)
       \<and> window_handle (objects (snd (snd (InitializeChild h
              (c\<lparr>creation_messages := pre @ [(WM_NCCREATE, wparam, create_struct c)]\<rparr>)
              this title width height m))) this) = new_window c
       \<and> userdata (snd (snd (InitializeChild h
              (c\<lparr>creation_messages := pre @ [(WM_NCCREATE, wparam, create_struct c)]\<rparr>)
              this title width height m))) (new_window c) = this"
proof -
  let ?m2 = "snd (snd (InitializeChild_begin h this title m))"
  have h0: "window_handle (objects ?m2 this) = 0"
    by (simp add: InitializeChild_begin_eq Destroy_window_handle)
  have ud: "userdata ?m2 (new_window c) = 0"
    using assms(2,3) by (auto simp add: InitializeChild_begin_eq Destroy_userdata)
  have effs: "\<exists>rest. fst (snd (InitializeChild h c this title width height m)) =
            ((if window_handle (objects m this) \<noteq> 0
              then [Native (DestroyWindow (window_handle (objects m this)))] else [])
             @ [Native (UnregisterClass (c_str (window_class_name (objects m this))))])
            @ [Native (RegisterClass (c_str (NarrowToWide h title))),
               Native (CreateWindowEx (c_str (NarrowToWide h title)) (c_str (NarrowToWide h title))
                         width height this)]
            @ rest"
    using InitializeChild_effects [of h c this title width height m]
    by (simp add: InitializeChild_begin_eq Destroy_effects)
  have before: "window_handle (objects (snd (snd (InitializeChild h
              (c\<lparr>creation_messages := take n pre\<rparr>) this title width height m))) this) = 0" for n
  proof -
    have "\<forall>x\<in>set (take n pre). fst x \<noteq> WM_NCCREATE"
      using assms(4) by (meson in_set_takeD)
    from creation_before_WM_NCCREATE [OF ud this, of h this] h0
    show ?thesis by (simp add: InitializeChild_state)
  qed
  note at = creation_at_WM_NCCREATE [OF assms(1) ud assms(4), of h wparam]
  have after: "window_handle (objects (snd (snd (InitializeChild h
              (c\<lparr>creation_messages := pre @ [(WM_NCCREATE, wparam, create_struct c)]\<rparr>)
              this title width height m))) this) = new_window c"
    unfolding InitializeChild_state at by simp
  have slot: "userdata (snd (snd (InitializeChild h
              (c\<lparr>creation_messages := pre @ [(WM_NCCREATE, wparam, create_struct c)]\<rparr>)
              this title width height m))) (new_window c) = this"
    unfolding InitializeChild_state at by simp
  have begin_effs: "fst (snd (InitializeChild_begin h this title m)) =
            fst (Destroy this m) @ [Native (RegisterClass (c_str (NarrowToWide h title)))]"
    by (simp add: InitializeChild_begin_eq)
  from effs begin_effs h0 before after slot show ?thesis by blast
qed


theorem InitializeChild_destroys_before_creating_witness:
  "(100::nat) \<noteq> 0 \<and> new_window some_creation \<noteq> 0
   \<and> userdata two_windows (new_window some_creation) = 0
   \<and> fst (0x0024 :: UINT, 0 :: WPARAM, 0 :: LPARAM) \<noteq> WM_NCCREATE
   \<and> window_handle (objects two_windows 100) = 10
   \<and> take 4 (fst (snd (InitializeChild some_host some_creation 100 ''w'' 640 480 two_windows))) =
       [Native (DestroyWindow 10), Native (UnregisterClass []), Native (RegisterClass [119]),
        Native (CreateWindowEx [119] [119] 640 480 100)]
   \<and> window_handle (objects (snd (snd (InitializeChild_begin some_host 100 ''w'' two_windows))) 100)
       = 0
   \<and> window_handle (objects (snd (snd (InitializeChild some_host
         (some_creation\<lparr>creation_messages := take 1 [(0x0024, 0, 0)]\<rparr>)
         100 ''w'' 640 480 two_windows))) 100) = 0
   \<and> window_handle (objects (snd (snd (InitializeChild some_host
         (some_creation\<lparr>creation_messages :=
            [(0x0024, 0, 0)] @ [(WM_NCCREATE, 0, create_struct some_creation)]\<rparr>)
         100 ''w'' 640 480 two_windows))) 100) = 30"
proof -
  have a: "(100::nat) \<noteq> 0" by simp
  have b: "new_window some_creation \<noteq> 0" by (simp add: some_creation_def)
  have c0: "userdata two_windows (new_window some_creation) = 0"
    by (simp add: some_creation_def two_windows_def)
  have c: "userdata two_windows (new_window some_creation) = 0
           \<or> new_window some_creation = window_handle (objects two_windows 100)"
    using c0 by (rule disjI1)
  have d0: "fst (0x0024 :: UINT, 0 :: WPARAM, 0 :: LPARAM) \<noteq> WM_NCCREATE" by simp
  have d: "\<forall>x\<in>set [(0x0024 :: UINT, 0 :: WPARAM, 0 :: LPARAM)]. fst x \<noteq> WM_NCCREATE" by simp
  have e: "window_handle (objects two_windows 100) = 10" by simp
  have f: "window_class_name (objects two_windows 100) = []" by (simp add: fresh_window_def)
  have g: "new_window some_creation = 30" by (simp add: some_creation_def)
  note inst = InitializeChild_destroys_before_creating [where h = some_host
      and title = "''w''" and width = 640 and height = 480 and wparam = 0, OF a b c d]
  from inst [THEN conjunct1] obtain rest where
    "fst (snd (InitializeChild some_host some_creation 100 ''w'' 640 480 two_windows)) =
       [Native (DestroyWindow 10), Native (UnregisterClass []), Native (RegisterClass [119]),
        Native (CreateWindowEx [119] [119] 640 480 100)] @ rest"
    by (auto simp add: NarrowToWide_w c_str_examples fresh_window_def)
  then have t: "take 4 (fst (snd (InitializeChild some_host some_creation 100 ''w'' 640 480
                   two_windows))) =
       [Native (DestroyWindow 10), Native (UnregisterClass []), Native (RegisterClass [119]),
        Native (CreateWindowEx [119] [119] 640 480 100)]"
    by simp
  note h0 = inst [THEN conjunct2, THEN conjunct2, THEN conjunct1]
  note before = inst [THEN conjunct2, THEN conjunct2, THEN conjunct2, THEN conjunct1,
      THEN spec, of 1]
  note after = inst [THEN conjunct2, THEN conjunct2, THEN conjunct2, THEN conjunct2,
      THEN conjunct1, unfolded g]
  from a b c0 d0 e t h0 before after show ?thesis by (intro conjI)
qed

end
